theory Spec2Isabelle
  imports
    Main
    "HOL-Library.Word"
    "HOL-Library.AList"
    "HOL-Library.Char_ord"
    "HOL-Library.List_Lexorder"
begin

section \<open>Go values\<close>

text \<open>
  Go's \<open>int\<close> and \<open>int64\<close> are 64-bit two's complement integers: \<open>+\<close> and \<open>-\<close> wrap,
  comparisons are signed (read through \<open>sint\<close>).  A Go map is an association list
  whose order stands for one iteration order the runtime may choose; lookups go
  through \<open>map_of\<close>, stores through \<open>AList.update\<close>, deletes through \<open>AList.delete\<close>.
\<close>

type_synonym go_int = "64 word"

text \<open>The dynamic values stored under \<open>interface{}\<close>.\<close>

datatype go_value = VString string | VInt go_int | VBool bool | VNil

type_synonym 'v go_map = "(string \<times> 'v) list"

text \<open>\<open>len(m)\<close> of a map: the number of distinct keys.\<close>

definition len_map :: "'v go_map \<Rightarrow> nat" where
  "len_map m = length (remdups (map fst m))"

text \<open>\<open>m[k]\<close> on a map of integers: the zero value when the key is absent.\<close>

definition get_int :: "go_int go_map \<Rightarrow> string \<Rightarrow> go_int" where
  "get_int m k = (case map_of m k of None \<Rightarrow> 0 | Some v \<Rightarrow> v)"


section \<open>dagengine: nodes and the graph\<close>

text \<open>
  An \<open>Executor\<close> is represented by what its \<open>Execute(ctx, nil)\<close> call returns: an
  output map, or an error.
\<close>

datatype exec_result = ExecOk "go_value go_map" | ExecErr string

text \<open>
  \<open>mu\<close> records whether the node's mutex is held.  It matters because the failure
  path of \<open>executeNode\<close> returns without unlocking it.
\<close>

record Node =
  ID :: string
  Dependencies :: "string list"
  Task :: exec_result
  Children :: "string list"
  Result :: "go_value go_map"
  Status :: string
  ReadyCounter :: go_int
  mu :: bool

text \<open>
  The engine: the node map, its mutex, and the wait group counter.  A node pointer
  is represented by the node's key in \<open>Nodes\<close>.
\<close>

record DAGEngine =
  Nodes :: "Node go_map"
  mu :: bool
  wg :: int

datatype dag_error =
    DuplicateNode string
  | DependencyError string string

definition NewDAGEngine :: DAGEngine where
  "NewDAGEngine = \<lparr>Nodes = [], mu = False, wg = 0\<rparr>"

definition NewNode :: "string \<Rightarrow> string list \<Rightarrow> exec_result \<Rightarrow> Node" where
  "NewNode i deps task =
     \<lparr>Node.ID = i, Dependencies = deps, Task = task, Children = [], Result = [],
      Status = ''PENDING'', ReadyCounter = of_nat (length deps), mu = False\<rparr>"

definition AddNode :: "Node \<Rightarrow> DAGEngine \<Rightarrow> dag_error option \<times> DAGEngine" where
  "AddNode node e =
     (if map_of (Nodes e) (Node.ID node) \<noteq> None
      then (Some (DuplicateNode (Node.ID node)), e)
      else (None, e\<lparr>Nodes := AList.update (Node.ID node) node (Nodes e)\<rparr>))"

text \<open>Step 1 of \<open>PreprocessDAG\<close>: every node's \<open>Children\<close> becomes nil.\<close>

definition clearChildren :: "Node go_map \<Rightarrow> Node go_map" where
  "clearChildren ns = map (\<lambda>(k, n). (k, n\<lparr>Children := []\<rparr>)) ns"

text \<open>
  The inner loop of step 2, for one child: each parent id is looked up; a missing
  parent returns the error at once, keeping the appends made so far.
\<close>

fun linkParents :: "string \<Rightarrow> string list \<Rightarrow> Node go_map \<Rightarrow> Node go_map \<times> dag_error option" where
  "linkParents childID [] ns = (ns, None)"
| "linkParents childID (parentID # ps) ns =
     (case map_of ns parentID of
        None \<Rightarrow> (ns, Some (DependencyError childID parentID))
      | Some parentNode \<Rightarrow>
          linkParents childID ps
            (AList.update parentID (parentNode\<lparr>Children := Children parentNode @ [childID]\<rparr>) ns))"

text \<open>
  The outer loop of step 2 ranges over the entries of the map (key and dependency
  list, neither of which the loop body changes).
\<close>

fun linkAll :: "(string \<times> string list) list \<Rightarrow> Node go_map \<Rightarrow> Node go_map \<times> dag_error option" where
  "linkAll [] ns = (ns, None)"
| "linkAll ((childID, deps) # rest) ns =
     (case linkParents childID deps ns of
        (ns', Some err) \<Rightarrow> (ns', Some err)
      | (ns', None) \<Rightarrow> linkAll rest ns')"

text \<open>\<open>PreprocessDAG\<close>: there is no step 3; after the links are built it returns nil.\<close>

definition PreprocessDAG :: "DAGEngine \<Rightarrow> dag_error option \<times> DAGEngine" where
  "PreprocessDAG e =
     (let cleared = clearChildren (Nodes e);
          (ns, err) = linkAll (map (\<lambda>(k, n). (k, Node.Dependencies n)) cleared) cleared
      in (err, e\<lparr>Nodes := ns\<rparr>))"


section \<open>dagengine: the scheduler\<close>

text \<open>
  A run is a set of goroutines, each executing \<open>executeNode\<close> for one node.  The
  points at which a goroutine can be observed:
  \<^item> \<open>Spawned\<close>: launched by \<open>go e.executeNode\<close>, nothing done yet;
  \<^item> \<open>Executing\<close>: status set to RUNNING, inside \<open>Task.Execute\<close>;
  \<^item> \<open>Triggering\<close>: status set to COMPLETED, about to enter \<open>triggerChildren\<close>;
  \<^item> \<open>Blocked\<close>: inside \<open>triggerChildren\<close>, holding \<open>e.mu\<close>, waiting for a child
    mutex that is never released.
  A goroutine whose \<open>executeNode\<close> returned is removed (its deferred \<open>wg.Done\<close> ran).
\<close>

datatype pc = Spawned | Executing | Triggering | Blocked

record sched =
  engine :: DAGEngine
  goroutines :: "(string \<times> pc) list"

text \<open>
  The loop of \<open>triggerChildren\<close> over \<open>parentNode.Children\<close>, run under \<open>e.mu\<close>.  It
  returns the node map, the children launched (in order), and whether it stopped
  at a child whose mutex is held.  The loop is taken as one step of the run: it
  holds \<open>e.mu\<close> throughout, and the steps of other goroutines that could fall
  between two of its iterations write only the status and result of their own
  node.
\<close>

fun triggerLoop :: "string list \<Rightarrow> Node go_map \<Rightarrow> string list \<Rightarrow> Node go_map \<times> string list \<times> bool" where
  "triggerLoop [] ns launched = (ns, launched, False)"
| "triggerLoop (childID # cs) ns launched =
     (case map_of ns childID of
        None \<Rightarrow> triggerLoop cs ns launched
      | Some childNode \<Rightarrow>
          if Node.mu childNode then (ns, launched, True)
          else
            let child' = childNode\<lparr>ReadyCounter := ReadyCounter childNode - 1\<rparr>;
                ns' = AList.update childID child' ns
            in if ReadyCounter child' = 0 \<and> Node.Status child' = ''PENDING''
               then triggerLoop cs ns' (launched @ [childID])
               else triggerLoop cs ns' launched)"

text \<open>\<open>wg.Add(1); go e.executeNode(ctx, node)\<close> for each key of a list.\<close>

definition launch :: "string list \<Rightarrow> sched \<Rightarrow> sched" where
  "launch ks s =
     s\<lparr>engine := (engine s)\<lparr>wg := wg (engine s) + int (length ks)\<rparr>,
       goroutines := goroutines s @ map (\<lambda>k. (k, Spawned)) ks\<rparr>"

text \<open>
  The goroutine of node \<open>k\<close> that stands at \<open>p\<close> returns: it leaves the list and
  its deferred \<open>wg.Done\<close> runs.
\<close>

definition finish :: "string \<Rightarrow> pc \<Rightarrow> sched \<Rightarrow> sched" where
  "finish k p s =
     s\<lparr>engine := (engine s)\<lparr>wg := wg (engine s) - 1\<rparr>,
       goroutines := remove1 (k, p) (goroutines s)\<rparr>"

definition setNode :: "string \<Rightarrow> Node \<Rightarrow> sched \<Rightarrow> sched" where
  "setNode k n s = s\<lparr>engine := (engine s)\<lparr>Nodes := AList.update k n (Nodes (engine s))\<rparr>\<rparr>"

definition setPc :: "string \<Rightarrow> pc \<Rightarrow> sched \<Rightarrow> sched" where
  "setPc k p s = s\<lparr>goroutines := AList.update k p (goroutines s)\<rparr>"

text \<open>
  One scheduling decision: the (first) goroutine of node \<open>k\<close> advances to its
  next observation point.  A goroutine that cannot advance (no such goroutine, or a
  mutex it needs is held) leaves the state as it is.
\<close>

definition step :: "sched \<Rightarrow> string \<Rightarrow> sched" where
  "step s k =
     (case (map_of (goroutines s) k, map_of (Nodes (engine s)) k) of
        (Some Spawned, Some n) \<Rightarrow>
          if Node.mu n then s
          else setPc k Executing (setNode k (n\<lparr>Status := ''RUNNING''\<rparr>) s)
      | (Some Executing, Some n) \<Rightarrow>
          if Node.mu n then s
          else (case Task n of
                  ExecErr msg \<Rightarrow> finish k Executing (setNode k (n\<lparr>Status := ''FAILED'', Node.mu := True\<rparr>) s)
                | ExecOk r \<Rightarrow>
                    setPc k Triggering (setNode k (n\<lparr>Status := ''COMPLETED'', Result := r\<rparr>) s))
      | (Some Triggering, Some n) \<Rightarrow>
          if DAGEngine.mu (engine s) then s
          else (case triggerLoop (Children n) (Nodes (engine s)) [] of
                  (ns, launched, blocked) \<Rightarrow>
                    let s1 = launch launched (s\<lparr>engine := (engine s)\<lparr>Nodes := ns\<rparr>\<rparr>)
                    in if blocked
                       then setPc k Blocked (s1\<lparr>engine := (engine s1)\<lparr>mu := True\<rparr>\<rparr>)
                       else finish k Triggering s1)
      | _ \<Rightarrow> s)"

text \<open>
  \<open>Run\<close>: launch every node without dependencies, then \<open>wg.Wait()\<close>.  The schedule
  lists, by node key, which goroutine advances at each moment; the launching loop
  touches no node, so it is placed before the first of these steps.  \<open>Run\<close> has
  returned by the end of the schedule when the counter is zero, and then it
  returns \<open>nil\<close>, whatever the nodes' final statuses; \<open>None\<close> means it is still
  waiting.
\<close>

definition roots :: "Node go_map \<Rightarrow> string list" where
  "roots ns = map fst (filter (\<lambda>(k, n). length (Node.Dependencies n) = 0) ns)"

definition started :: "DAGEngine \<Rightarrow> sched" where
  "started e = launch (roots (Nodes e)) \<lparr>engine = e, goroutines = []\<rparr>"

definition Run :: "DAGEngine \<Rightarrow> string list \<Rightarrow> (dag_error option \<times> DAGEngine) option" where
  "Run e schedule =
     (let s = foldl step (started e) schedule
      in if wg (engine s) = 0 then Some (None, engine s) else None)"

text \<open>Building a graph the way the callers do: \<open>AddNode\<close> for each node in turn.\<close>

fun addNodes :: "Node list \<Rightarrow> DAGEngine \<Rightarrow> DAGEngine" where
  "addNodes [] e = e"
| "addNodes (n # ns) e = addNodes ns (snd (AddNode n e))"

text \<open>The statuses of all nodes, and the goroutines alive, after a prefix of a run.\<close>

definition statuses :: "DAGEngine \<Rightarrow> (string \<times> string) list" where
  "statuses e = map (\<lambda>(k, n). (k, Node.Status n)) (Nodes e)"

definition during :: "DAGEngine \<Rightarrow> string list \<Rightarrow> sched" where
  "during e schedule = foldl step (started e) schedule"

section \<open>engine: the engine service\<close>

text \<open>
  \<open>Cancelled\<close> stands for the execution's context: true once its \<open>Cancel\<close> function
  has been called.  \<open>StartTime\<close> is the clock reading taken by \<open>time.Now()\<close>.
\<close>

record WorkflowExecution =
  ExecutionID :: string
  WorkflowID :: string
  Version :: string
  Engine :: DAGEngine
  StartTime :: go_int
  Status :: string
  Cancelled :: bool

record EngineService =
  ID :: string
  capacity :: go_int
  activeWorkflows :: "WorkflowExecution go_map"

datatype engine_error = AtCapacity go_int | ExecutionNotFound string

definition NewEngineService :: "string \<Rightarrow> go_int \<Rightarrow> EngineService" where
  "NewEngineService i c = \<lparr>EngineService.ID = i, capacity = c, activeWorkflows = []\<rparr>"

text \<open>
  \<open>EngineService.ExecuteWorkflow\<close> up to its \<open>return\<close>: the capacity check, then the
  new record stored under the execution id.  \<open>now\<close> is the clock reading.
\<close>

definition EngineService_ExecuteWorkflow ::
  "EngineService \<Rightarrow> go_int \<Rightarrow> string \<Rightarrow> string \<Rightarrow> string \<Rightarrow> DAGEngine
     \<Rightarrow> engine_error option \<times> EngineService" where
  "EngineService_ExecuteWorkflow es now workflowID version executionID eng =
     (if sint (capacity es) \<le> int (len_map (EngineService.activeWorkflows es))
      then (Some (AtCapacity (capacity es)), es)
      else (None,
            es\<lparr>EngineService.activeWorkflows :=
                 AList.update executionID
                   \<lparr>ExecutionID = executionID, WorkflowID = workflowID, Version = version,
                    Engine = eng, StartTime = now, Status = ''RUNNING'', Cancelled = False\<rparr>
                   (EngineService.activeWorkflows es)\<rparr>))"

text \<open>
  The goroutine started by \<open>ExecuteWorkflow\<close>, once \<open>engine.Run\<close> has returned: the
  deferred function deletes the record.
\<close>

definition EngineService_runFinished :: "EngineService \<Rightarrow> string \<Rightarrow> EngineService" where
  "EngineService_runFinished es executionID =
     es\<lparr>EngineService.activeWorkflows := AList.delete executionID (EngineService.activeWorkflows es)\<rparr>"

definition EngineService_GetActiveWorkflows :: "EngineService \<Rightarrow> nat" where
  "EngineService_GetActiveWorkflows es = len_map (EngineService.activeWorkflows es)"

definition GetWorkflowStatus :: "EngineService \<Rightarrow> string \<Rightarrow> engine_error + string" where
  "GetWorkflowStatus es executionID =
     (case map_of (EngineService.activeWorkflows es) executionID of
        None \<Rightarrow> Inl (ExecutionNotFound executionID)
      | Some ex \<Rightarrow> Inr (WorkflowExecution.Status ex))"


section \<open>orchestrator: load balancers\<close>

text \<open>
  The hash ring is the external \<open>consistent\<close> package; it is represented by the
  hosts it holds.  \<open>Add\<close> ignores a host that is already there.
\<close>

record ConsistentHashLoadBalancer =
  hashRing :: "string list"
  capacities :: "go_int go_map"
  activeWorkflows :: "go_int go_map"

definition NewConsistentHashLoadBalancer :: "go_int \<Rightarrow> ConsistentHashLoadBalancer" where
  "NewConsistentHashLoadBalancer virtualNodes =
     \<lparr>hashRing = [], capacities = [], activeWorkflows = []\<rparr>"

definition CH_AddEngine :: "string \<Rightarrow> go_int \<Rightarrow> ConsistentHashLoadBalancer \<Rightarrow> ConsistentHashLoadBalancer" where
  "CH_AddEngine engineID c lb =
     lb\<lparr>hashRing := (if engineID \<in> set (hashRing lb) then hashRing lb else hashRing lb @ [engineID]),
        capacities := AList.update engineID c (capacities lb),
        activeWorkflows := AList.update engineID 0 (activeWorkflows lb)\<rparr>"

definition CH_RemoveEngine :: "string \<Rightarrow> ConsistentHashLoadBalancer \<Rightarrow> ConsistentHashLoadBalancer" where
  "CH_RemoveEngine engineID lb =
     lb\<lparr>hashRing := removeAll engineID (hashRing lb),
        capacities := AList.delete engineID (capacities lb),
        activeWorkflows := AList.delete engineID (activeWorkflows lb)\<rparr>"

definition IncrementActiveWorkflows :: "string \<Rightarrow> ConsistentHashLoadBalancer \<Rightarrow> ConsistentHashLoadBalancer" where
  "IncrementActiveWorkflows engineID lb =
     lb\<lparr>activeWorkflows :=
          AList.update engineID (get_int (activeWorkflows lb) engineID + 1) (activeWorkflows lb)\<rparr>"

definition DecrementActiveWorkflows :: "string \<Rightarrow> ConsistentHashLoadBalancer \<Rightarrow> ConsistentHashLoadBalancer" where
  "DecrementActiveWorkflows engineID lb =
     (if 0 < sint (get_int (activeWorkflows lb) engineID)
      then lb\<lparr>activeWorkflows :=
                AList.update engineID (get_int (activeWorkflows lb) engineID - 1) (activeWorkflows lb)\<rparr>
      else lb)"

definition GetActiveWorkflows :: "ConsistentHashLoadBalancer \<Rightarrow> string \<Rightarrow> go_int" where
  "GetActiveWorkflows lb engineID = get_int (activeWorkflows lb) engineID"

text \<open>The calls of the active-count interface, and a sequence of them applied in order.\<close>

datatype lb_call =
    CallAddEngine string go_int
  | CallIncrement string
  | CallDecrement string

fun applyCall :: "ConsistentHashLoadBalancer \<Rightarrow> lb_call \<Rightarrow> ConsistentHashLoadBalancer" where
  "applyCall lb (CallAddEngine e c) = CH_AddEngine e c lb"
| "applyCall lb (CallIncrement e) = IncrementActiveWorkflows e lb"
| "applyCall lb (CallDecrement e) = DecrementActiveWorkflows e lb"

fun isIncrement :: "lb_call \<Rightarrow> bool" where
  "isIncrement (CallIncrement e) = True"
| "isIncrement _ = False"

text \<open>
  The invariant behind the active counts: read as unsigned numbers, no engine's
  count exceeds \<open>k\<close>.
\<close>

definition countsBelow :: "nat \<Rightarrow> ConsistentHashLoadBalancer \<Rightarrow> bool" where
  "countsBelow k lb = (\<forall>e. unat (GetActiveWorkflows lb e) \<le> k)"


section \<open>Example graphs\<close>

text \<open>
  The diamond \<open>A \<rightarrow> {B, C} \<rightarrow> D\<close> in which \<open>C\<close>'s executor fails, built with \<open>NewNode\<close>,
  \<open>AddNode\<close> and \<open>PreprocessDAG\<close>.
\<close>

definition diamond :: DAGEngine where
  "diamond = snd (PreprocessDAG (addNodes
      [NewNode ''A'' [] (ExecOk []), NewNode ''B'' [''A''] (ExecOk []),
       NewNode ''C'' [''A''] (ExecErr ''boom''), NewNode ''D'' [''B'', ''C''] (ExecOk [])]
      NewDAGEngine))"

text \<open>
  Two independent branches: the root \<open>A\<close> fails and has the child \<open>D\<close>; the root \<open>B\<close>
  succeeds and has the child \<open>C\<close>.
\<close>

definition branches :: DAGEngine where
  "branches = snd (PreprocessDAG (addNodes
      [NewNode ''A'' [] (ExecErr ''boom''), NewNode ''B'' [] (ExecOk []),
       NewNode ''C'' [''B''] (ExecOk []), NewNode ''D'' [''A''] (ExecOk [])]
      NewDAGEngine))"

text \<open>Two nodes that depend on each other, before preprocessing.\<close>

definition twoCycle :: DAGEngine where
  "twoCycle = addNodes
      [NewNode ''A'' [''B''] (ExecOk []), NewNode ''B'' [''A''] (ExecOk [])] NewDAGEngine"


section \<open>orchestrator: the version registry\<close>

record NodeDefinition =
  NodeID :: string
  Dependencies :: "string list"
  ExecutorType :: string
  ExecutorCode :: string
  ExecutorConfig :: "go_value go_map"
  Metadata :: "go_value go_map"

record WorkflowDefinition =
  WorkflowID :: string
  Version :: string
  Name :: string
  Nodes :: "NodeDefinition list"
  Metadata :: "go_value go_map"

record WorkflowVersion =
  WorkflowID :: string
  Version :: string
  Definition :: "WorkflowDefinition option"
  CreatedAt :: go_int
  Dependencies :: "string list"
  Dependents :: "string list"

text \<open>
  \<open>versions\<close> maps a workflow id to its versions, \<open>latest\<close> to its latest version.
  Both maps hold pointers to the same \<open>WorkflowVersion\<close> objects.  The only write to
  a stored object is the assignment to \<open>Dependents\<close> made by \<open>updateDependencies\<close>
  for the object being registered, so the maps hold the objects' final values.
\<close>

record VersionManager =
  versions :: "(WorkflowVersion go_map) go_map"
  latest :: "WorkflowVersion go_map"

datatype registry_error =
    EmptyWorkflowID
  | EmptyVersion
  | WorkflowNotFound string
  | VersionNotFound string string
  | HasDependentsCount string nat
  | NotNewer string string
  | AlreadyExists string
  | CannotUpdateHasDependents string "string list"
  | BuildFailed string
  | RegisterFailed registry_error

definition NewVersionManager :: VersionManager where
  "NewVersionManager = \<lparr>versions = [], latest = []\<rparr>"

text \<open>Go compares strings byte by byte: the lexicographic order on character lists.\<close>

definition isNewerVersion :: "string \<Rightarrow> string \<Rightarrow> bool" where
  "isNewerVersion v1 v2 = (v1 > v2)"

text \<open>
  The first loop of \<open>updateDependencies\<close>: for every other workflow id, one entry
  per stored version of it whose \<open>Dependencies\<close> contain the id being registered.
  The second loop only takes and releases locks.
\<close>

definition findDependents :: "string \<Rightarrow> (WorkflowVersion go_map) go_map \<Rightarrow> string list" where
  "findDependents workflowID vs =
     concat (map (\<lambda>(wfID, inner).
        if wfID = workflowID then []
        else concat (map (\<lambda>(ver, v).
               if workflowID \<in> set (WorkflowVersion.Dependencies v) then [wfID] else []) inner)) vs)"

definition updateDependencies :: "VersionManager \<Rightarrow> WorkflowVersion \<Rightarrow> WorkflowVersion" where
  "updateDependencies vm version =
     version\<lparr>Dependents := findDependents (WorkflowVersion.WorkflowID version) (versions vm)\<rparr>"

definition RegisterVersion :: "WorkflowVersion \<Rightarrow> VersionManager \<Rightarrow> registry_error option \<times> VersionManager" where
  "RegisterVersion version vm =
     (if WorkflowVersion.WorkflowID version = [] then (Some EmptyWorkflowID, vm)
      else if WorkflowVersion.Version version = [] then (Some EmptyVersion, vm)
      else
        let wid = WorkflowVersion.WorkflowID version;
            stored = updateDependencies vm version;
            inner = (case map_of (versions vm) wid of None \<Rightarrow> [] | Some m \<Rightarrow> m);
            versions' = AList.update wid (AList.update (WorkflowVersion.Version version) stored inner)
                          (versions vm);
            latest' = (case map_of (latest vm) wid of
                         None \<Rightarrow> AList.update wid stored (latest vm)
                       | Some l \<Rightarrow>
                           if isNewerVersion (WorkflowVersion.Version version) (WorkflowVersion.Version l)
                           then AList.update wid stored (latest vm)
                           else latest vm)
        in (None, \<lparr>versions = versions', latest = latest'\<rparr>))"

definition GetLatestVersion :: "VersionManager \<Rightarrow> string \<Rightarrow> registry_error + WorkflowVersion" where
  "GetLatestVersion vm workflowID =
     (case map_of (latest vm) workflowID of
        None \<Rightarrow> Inl (WorkflowNotFound workflowID)
      | Some l \<Rightarrow> Inr l)"

definition GetDependents :: "VersionManager \<Rightarrow> string \<Rightarrow> string list" where
  "GetDependents vm workflowID =
     (case map_of (latest vm) workflowID of None \<Rightarrow> [] | Some l \<Rightarrow> Dependents l)"

definition CanUpdate :: "VersionManager \<Rightarrow> string \<Rightarrow> string \<Rightarrow> bool \<times> string list \<times> registry_error option" where
  "CanUpdate vm workflowID newVersion =
     (case map_of (versions vm) workflowID of
        None \<Rightarrow> (True, [], None)
      | Some version \<Rightarrow>
          (case map_of (latest vm) workflowID of
             None \<Rightarrow> (True, [], None)
           | Some currentLatest \<Rightarrow>
               if length (Dependents currentLatest) > 0
               then (False, Dependents currentLatest,
                     Some (HasDependentsCount workflowID (length (Dependents currentLatest))))
               else if \<not> isNewerVersion newVersion (WorkflowVersion.Version currentLatest)
               then (False, [], Some (NotNewer newVersion (WorkflowVersion.Version currentLatest)))
               else if map_of version newVersion \<noteq> None
               then (False, [], Some (AlreadyExists newVersion))
               else (True, [], None)))"


section \<open>orchestrator: the workflow manager\<close>

text \<open>
  A \<open>WorkflowBuilder\<close> is represented by what calling it returns: an error, or a
  definition pointer (possibly nil).
\<close>

datatype build_result = BuildError string | Built "WorkflowDefinition option"

record WorkflowManager =
  versions :: VersionManager
  builders :: "build_result go_map"
  metadata :: "(go_value go_map) go_map"

definition NewWorkflowManager :: WorkflowManager where
  "NewWorkflowManager = \<lparr>WorkflowManager.versions = NewVersionManager, builders = [], metadata = []\<rparr>"

text \<open>
  \<open>extractDependencies\<close>: the ids named by nodes whose metadata marks them as
  sub-workflows, each once.
\<close>

definition subWorkflowRef :: "NodeDefinition \<Rightarrow> string list" where
  "subWorkflowRef node =
     (case map_of (NodeDefinition.Metadata node) ''workflow_type'' of
        Some (VString nodeType) \<Rightarrow>
          if nodeType = ''sub-workflow''
          then (case map_of (NodeDefinition.Metadata node) ''workflow_id'' of
                  Some (VString wfID) \<Rightarrow> [wfID]
                | _ \<Rightarrow> [])
          else []
      | _ \<Rightarrow> [])"

definition extractDependencies :: "WorkflowDefinition \<Rightarrow> string list" where
  "extractDependencies def = remdups (concat (map subWorkflowRef (WorkflowDefinition.Nodes def)))"

text \<open>
  What a call of \<open>RegisterWorkflow\<close> comes to: it returns an error value (\<open>None\<close> for
  nil), or it panics when the builder hands back a nil definition without an error.
\<close>

datatype register_result = Returned "registry_error option" | NilDereference

definition RegisterWorkflow ::
  "WorkflowManager \<Rightarrow> go_int \<Rightarrow> string \<Rightarrow> string \<Rightarrow> build_result \<Rightarrow> (go_value go_map) option
     \<Rightarrow> register_result \<times> WorkflowManager" where
  "RegisterWorkflow wm now workflowID version builder meta =
     (case CanUpdate (WorkflowManager.versions wm) workflowID version of
        (False, dependents, err) \<Rightarrow>
          if length dependents > 0
          then (Returned (Some (CannotUpdateHasDependents workflowID dependents)), wm)
          else (Returned err, wm)
      | (True, dependents, err) \<Rightarrow>
          (case builder of
             BuildError msg \<Rightarrow> (Returned (Some (BuildFailed msg)), wm)
           | Built None \<Rightarrow> (NilDereference, wm)
           | Built (Some def) \<Rightarrow>
               (case RegisterVersion
                       \<lparr>WorkflowVersion.WorkflowID = workflowID, Version = version,
                        Definition = Some def, CreatedAt = now,
                        Dependencies = extractDependencies def, Dependents = []\<rparr>
                       (WorkflowManager.versions wm) of
                  (Some e, vm') \<Rightarrow>
                    (Returned (Some (RegisterFailed e)), wm\<lparr>WorkflowManager.versions := vm'\<rparr>)
                | (None, vm') \<Rightarrow>
                    (Returned None,
                     wm\<lparr>WorkflowManager.versions := vm',
                        builders := AList.update workflowID builder (builders wm),
                        metadata := AList.update workflowID
                                      (case meta of Some m \<Rightarrow> m | None \<Rightarrow> []) (metadata wm)\<rparr>))))"

definition WM_GetLatestVersion :: "WorkflowManager \<Rightarrow> string \<Rightarrow> registry_error + string" where
  "WM_GetLatestVersion wm workflowID =
     (case GetLatestVersion (WorkflowManager.versions wm) workflowID of
        Inl e \<Rightarrow> Inl e
      | Inr v \<Rightarrow> Inr (WorkflowVersion.Version v))"

definition HasWorkflow :: "WorkflowManager \<Rightarrow> string \<Rightarrow> bool" where
  "HasWorkflow wm workflowID = (map_of (builders wm) workflowID \<noteq> None)"

definition BuildWorkflow :: "WorkflowManager \<Rightarrow> string \<Rightarrow> registry_error + WorkflowDefinition option" where
  "BuildWorkflow wm workflowID =
     (case map_of (builders wm) workflowID of
        None \<Rightarrow> Inl (WorkflowNotFound workflowID)
      | Some (BuildError msg) \<Rightarrow> Inl (BuildFailed msg)
      | Some (Built d) \<Rightarrow> Inr d)"

text \<open>A run of \<open>RegisterVersion\<close> calls, in order.\<close>

definition registerAll :: "VersionManager \<Rightarrow> WorkflowVersion list \<Rightarrow> VersionManager" where
  "registerAll vm vs = foldl (\<lambda>m v. snd (RegisterVersion v m)) vm vs"

text \<open>A bare version record, and a definition with one node of given metadata.\<close>

definition versionOf :: "string \<Rightarrow> string \<Rightarrow> WorkflowVersion" where
  "versionOf workflowID version =
     \<lparr>WorkflowVersion.WorkflowID = workflowID, Version = version, Definition = None,
      CreatedAt = 0, Dependencies = [], Dependents = []\<rparr>"

definition oneNodeDef :: "string \<Rightarrow> string \<Rightarrow> go_value go_map \<Rightarrow> WorkflowDefinition" where
  "oneNodeDef workflowID version meta =
     \<lparr>WorkflowDefinition.WorkflowID = workflowID, Version = version, Name = workflowID,
      Nodes = [\<lparr>NodeID = ''n1'', Dependencies = [], ExecutorType = ''lua'', ExecutorCode = [],
                ExecutorConfig = [], Metadata = meta\<rparr>],
      Metadata = []\<rparr>"

definition callsSub :: "string \<Rightarrow> go_value go_map" where
  "callsSub w = [(''workflow_type'', VString ''sub-workflow''), (''workflow_id'', VString w)]"

text \<open>
  The registry scenario: \<open>w\<close> 1.0.0 is registered, then \<open>x\<close> 1.0.0 whose node
  references \<open>w\<close> as a sub-workflow.
\<close>

definition afterW :: WorkflowManager where
  "afterW = snd (RegisterWorkflow NewWorkflowManager 100 ''w'' ''1.0.0''
                   (Built (Some (oneNodeDef ''w'' ''1.0.0'' []))) None)"

definition afterWX :: WorkflowManager where
  "afterWX = snd (RegisterWorkflow afterW 101 ''x'' ''1.0.0''
                    (Built (Some (oneNodeDef ''x'' ''1.0.0'' (callsSub ''w'')))) None)"

text \<open>The same two registrations in the other order.\<close>

definition afterXW :: WorkflowManager where
  "afterXW = snd (RegisterWorkflow
                    (snd (RegisterWorkflow NewWorkflowManager 100 ''x'' ''1.0.0''
                            (Built (Some (oneNodeDef ''x'' ''1.0.0'' (callsSub ''w'')))) None))
                    101 ''w'' ''1.0.0'' (Built (Some (oneNodeDef ''w'' ''1.0.0'' []))) None)"


section \<open>Semantic versions, as the specification words them\<close>

text \<open>
  Modelled from the spec: "versions are compared by semantic ordering
  (major.minor.patch ...)".  A version of the form \<open>major.minor.patch\<close>, three
  decimal numbers, is read as a triple; triples are ordered by major, then minor,
  then patch.  Strings of any other form are not comparable here.
\<close>

definition digitValue :: "char \<Rightarrow> nat option" where
  "digitValue c =
     (if CHR ''0'' \<le> c \<and> c \<le> CHR ''9'' then Some (of_char c - of_char CHR ''0'') else None)"

fun parseNatFrom :: "nat \<Rightarrow> string \<Rightarrow> nat option" where
  "parseNatFrom acc [] = Some acc"
| "parseNatFrom acc (c # cs) =
     (case digitValue c of None \<Rightarrow> None | Some d \<Rightarrow> parseNatFrom (10 * acc + d) cs)"

definition parseNat :: "string \<Rightarrow> nat option" where
  "parseNat s = (if s = [] then None else parseNatFrom 0 s)"

fun splitOn :: "char \<Rightarrow> string \<Rightarrow> string list" where
  "splitOn sep [] = [[]]"
| "splitOn sep (c # cs) =
     (if c = sep then [] # splitOn sep cs
      else (case splitOn sep cs of [] \<Rightarrow> [[c]] | part # parts \<Rightarrow> (c # part) # parts))"

definition spec_semver :: "string \<Rightarrow> (nat \<times> nat \<times> nat) option" where
  "spec_semver v =
     (case map parseNat (splitOn CHR ''.'' v) of
        [Some major, Some minor, Some patch] \<Rightarrow> Some (major, minor, patch)
      | _ \<Rightarrow> None)"

definition spec_semver_dominates :: "string \<Rightarrow> string \<Rightarrow> bool" where
  "spec_semver_dominates v1 v2 =
     (case (spec_semver v1, spec_semver v2) of
        (Some (a1, b1, c1), Some (a2, b2, c2)) \<Rightarrow>
          a2 < a1 \<or> (a2 = a1 \<and> (b2 < b1 \<or> (b2 = b1 \<and> c2 < c1)))
      | _ \<Rightarrow> False)"


section \<open>Formatting integers\<close>

text \<open>\<open>fmt.Sprintf("%d", n)\<close> for an \<open>int64\<close>: the decimal digits, after a minus sign if negative.\<close>

definition digitChar :: "nat \<Rightarrow> char" where
  "digitChar d = char_of (48 + d)"

fun decimal :: "nat \<Rightarrow> string" where
  "decimal n = (if n < 10 then [digitChar n] else decimal (n div 10) @ [digitChar (n mod 10)])"

declare decimal.simps [simp del]

definition formatInt :: "go_int \<Rightarrow> string" where
  "formatInt w =
     (if sint w < 0 then CHR ''-'' # decimal (nat (- sint w)) else decimal (nat (sint w)))"

text \<open>Reading a digit string back, to show that \<open>decimal\<close> loses nothing.\<close>

definition digitsValue :: "string \<Rightarrow> nat" where
  "digitsValue s = foldl (\<lambda>acc c. 10 * acc + (of_char c - 48)) 0 s"


section \<open>orchestrator: the sub-workflow coordinator\<close>

record SubWorkflowExecution =
  ExecutionID :: string
  SubWorkflowID :: string
  SubWorkflowVersion :: string
  ParentWorkflowID :: string
  ParentExecutionID :: string
  Status :: string
  Outputs :: "go_value go_map"
  Error :: "string option"
  StartTime :: go_int
  EndTime :: "go_int option"

text \<open>
  The coordinator reaches the outside world only through its \<open>orchestrator\<close> field,
  an interface with the single method \<open>ExecuteWorkflow\<close>.  \<open>orchestratorCalls\<close> is the
  list of calls made through it so far, oldest first.
\<close>

datatype orchestrator_call = ExecuteWorkflowCall string "go_value go_map"

record SubWorkflowCoordinator =
  activeSubWorkflows :: "SubWorkflowExecution go_map"
  parentToChildren :: "(string list) go_map"
  orchestratorCalls :: "orchestrator_call list"

definition NewSubWorkflowCoordinator :: SubWorkflowCoordinator where
  "NewSubWorkflowCoordinator =
     \<lparr>activeSubWorkflows = [], parentToChildren = [], orchestratorCalls = []\<rparr>"

text \<open>
  \<open>ExecuteSubWorkflow\<close> up to its \<open>return\<close>: the PENDING record and the parent-child
  link.  \<open>idClock\<close> and \<open>startClock\<close> are its two clock readings.  The inputs handed
  to the goroutine carry the two parent keys.
\<close>

definition subInputs :: "string \<Rightarrow> string \<Rightarrow> go_value go_map \<Rightarrow> go_value go_map" where
  "subInputs parentWorkflowID parentExecutionID inputs =
     AList.update ''_parent_execution_id'' (VString parentExecutionID)
       (AList.update ''_parent_workflow_id'' (VString parentWorkflowID) inputs)"

definition ExecuteSubWorkflow ::
  "SubWorkflowCoordinator \<Rightarrow> go_int \<Rightarrow> go_int \<Rightarrow> string \<Rightarrow> string \<Rightarrow> string \<Rightarrow> string
     \<Rightarrow> string \<times> SubWorkflowCoordinator" where
  "ExecuteSubWorkflow swc idClock startClock subWorkflowID subWorkflowVersion
       parentWorkflowID parentExecutionID =
     (let executionID = parentExecutionID @ ''-sub-'' @ formatInt idClock;
          ex = \<lparr>SubWorkflowExecution.ExecutionID = executionID, SubWorkflowID = subWorkflowID,
                SubWorkflowVersion = subWorkflowVersion, ParentWorkflowID = parentWorkflowID,
                ParentExecutionID = parentExecutionID, Status = ''PENDING'', Outputs = [],
                Error = None, StartTime = startClock, EndTime = None\<rparr>;
          siblings = (case map_of (parentToChildren swc) parentExecutionID of
                        None \<Rightarrow> [] | Some cs \<Rightarrow> cs)
      in (executionID,
          swc\<lparr>activeSubWorkflows := AList.update executionID ex (activeSubWorkflows swc),
              parentToChildren :=
                AList.update parentExecutionID (siblings @ [executionID]) (parentToChildren swc)\<rparr>))"

text \<open>
  The goroutine of \<open>ExecuteSubWorkflow\<close>, first half: the record becomes RUNNING and
  \<open>orchestrator.ExecuteWorkflow\<close> is called.
\<close>

definition subWorkflowStarts ::
  "SubWorkflowCoordinator \<Rightarrow> string \<Rightarrow> string \<Rightarrow> go_value go_map \<Rightarrow> SubWorkflowCoordinator" where
  "subWorkflowStarts swc executionID subWorkflowID inputs =
     (case map_of (activeSubWorkflows swc) executionID of
        None \<Rightarrow> swc
      | Some ex \<Rightarrow>
          swc\<lparr>activeSubWorkflows :=
                AList.update executionID (ex\<lparr>SubWorkflowExecution.Status := ''RUNNING''\<rparr>)
                  (activeSubWorkflows swc),
              orchestratorCalls :=
                orchestratorCalls swc @ [ExecuteWorkflowCall subWorkflowID inputs]\<rparr>)"

text \<open>Second half: the call has returned an error or outputs at clock reading \<open>now\<close>.\<close>

definition subWorkflowReturns ::
  "SubWorkflowCoordinator \<Rightarrow> string \<Rightarrow> string + go_value go_map \<Rightarrow> go_int \<Rightarrow> SubWorkflowCoordinator" where
  "subWorkflowReturns swc executionID outcome now =
     (case map_of (activeSubWorkflows swc) executionID of
        None \<Rightarrow> swc
      | Some ex \<Rightarrow>
          swc\<lparr>activeSubWorkflows :=
                AList.update executionID
                  ((case outcome of
                      Inl err \<Rightarrow> ex\<lparr>SubWorkflowExecution.Status := ''FAILED'', Error := Some err\<rparr>
                    | Inr outs \<Rightarrow> ex\<lparr>SubWorkflowExecution.Status := ''COMPLETED'', Outputs := outs\<rparr>)
                   \<lparr>EndTime := Some now\<rparr>)
                  (activeSubWorkflows swc)\<rparr>)"

text \<open>
  \<open>CancelChildren\<close>: each child of the parent whose record exists and is RUNNING is
  set to CANCELLED.  Nothing is called; the function always returns nil.
\<close>

fun cancelEach :: "string list \<Rightarrow> SubWorkflowExecution go_map \<Rightarrow> SubWorkflowExecution go_map" where
  "cancelEach [] active = active"
| "cancelEach (childID # rest) active =
     (case map_of active childID of
        Some ex \<Rightarrow>
          if SubWorkflowExecution.Status ex = ''RUNNING''
          then cancelEach rest
                 (AList.update childID (ex\<lparr>SubWorkflowExecution.Status := ''CANCELLED''\<rparr>) active)
          else cancelEach rest active
      | None \<Rightarrow> cancelEach rest active)"

definition CancelChildren :: "SubWorkflowCoordinator \<Rightarrow> string \<Rightarrow> string option \<times> SubWorkflowCoordinator" where
  "CancelChildren swc parentExecutionID =
     (let children = (case map_of (parentToChildren swc) parentExecutionID of
                        None \<Rightarrow> [] | Some cs \<Rightarrow> cs)
      in (None, swc\<lparr>activeSubWorkflows := cancelEach children (activeSubWorkflows swc)\<rparr>))"

definition GetSubWorkflowStatus :: "SubWorkflowCoordinator \<Rightarrow> string \<Rightarrow> string option" where
  "GetSubWorkflowStatus swc executionID =
     map_option SubWorkflowExecution.Status (map_of (activeSubWorkflows swc) executionID)"

text \<open>A parent execution with one child that has reached RUNNING.\<close>

definition oneRunningChild :: SubWorkflowCoordinator where
  "oneRunningChild =
     (case ExecuteSubWorkflow NewSubWorkflowCoordinator 7 8 ''child-wf'' ''1.0.0'' ''parent-wf'' ''exec-1-1'' of
        (executionID, swc) \<Rightarrow>
          subWorkflowStarts swc executionID ''child-wf'' (subInputs ''parent-wf'' ''exec-1-1'' []))"


section \<open>orchestrator: the round-robin balancer and the balancer interface\<close>

record RoundRobinLoadBalancer =
  engines :: "string list"
  current :: go_int
  capacities :: "go_int go_map"
  activeWorkflows :: "go_int go_map"

datatype orch_error =
    NoEnginesAvailable
  | EngineAlreadyExists string
  | EngineNotFound string
  | UnsupportedTransport string
  | UnsupportedLoadBalancer string
  | InvalidGRPCPort go_int
  | InvalidConfig orch_error
  | DiscoveryFailed string
  | WorkflowUnknown string
  | VersionLookupFailed registry_error
  | SelectEngineFailed orch_error
  | BuildWorkflowFailed registry_error
  | ConnectFailed string
  | RemoteCallFailed string

text \<open>What a Go call comes to: a value, an error, or a panic.\<close>

datatype 'a outcome = Value 'a | Failure orch_error | Panic string

definition NewRoundRobinLoadBalancer :: RoundRobinLoadBalancer where
  "NewRoundRobinLoadBalancer =
     \<lparr>engines = [], current = 0, capacities = [], activeWorkflows = []\<rparr>"

definition RR_AddEngine ::
  "string \<Rightarrow> go_int \<Rightarrow> RoundRobinLoadBalancer \<Rightarrow> orch_error option \<times> RoundRobinLoadBalancer" where
  "RR_AddEngine engineID c lb =
     (if engineID \<in> set (engines lb) then (Some (EngineAlreadyExists engineID), lb)
      else (None,
            lb\<lparr>engines := engines lb @ [engineID],
               capacities := AList.update engineID c (RoundRobinLoadBalancer.capacities lb),
               activeWorkflows := AList.update engineID 0 (RoundRobinLoadBalancer.activeWorkflows lb)\<rparr>))"

definition RR_RemoveEngine ::
  "string \<Rightarrow> RoundRobinLoadBalancer \<Rightarrow> orch_error option \<times> RoundRobinLoadBalancer" where
  "RR_RemoveEngine engineID lb =
     (if engineID \<in> set (engines lb)
      then (None,
            lb\<lparr>engines := remove1 engineID (engines lb),
               capacities := AList.delete engineID (RoundRobinLoadBalancer.capacities lb),
               activeWorkflows := AList.delete engineID (RoundRobinLoadBalancer.activeWorkflows lb)\<rparr>)
      else (Some (EngineNotFound engineID), lb))"

definition RR_UpdateEngineCapacity ::
  "string \<Rightarrow> go_int \<Rightarrow> RoundRobinLoadBalancer \<Rightarrow> orch_error option \<times> RoundRobinLoadBalancer" where
  "RR_UpdateEngineCapacity engineID c lb =
     (if map_of (RoundRobinLoadBalancer.capacities lb) engineID = None
      then (Some (EngineNotFound engineID), lb)
      else (None, lb\<lparr>capacities := AList.update engineID c (RoundRobinLoadBalancer.capacities lb)\<rparr>))"

text \<open>
  The loop of \<open>SelectEngine\<close>, with the number of iterations left.  \<open>engines[current]\<close>
  panics when \<open>current\<close> is not an index of the slice.  Inside the loop \<open>current\<close> is
  a valid index, so \<open>(current + 1) % len\<close> is the remainder on naturals.
\<close>

fun rrLoop :: "nat \<Rightarrow> go_int \<Rightarrow> RoundRobinLoadBalancer \<Rightarrow> string outcome \<times> RoundRobinLoadBalancer" where
  "rrLoop 0 start lb =
     (case engines lb of [] \<Rightarrow> (Panic ''index out of range'', lb) | e # es \<Rightarrow> (Value e, lb))"
| "rrLoop (Suc n) start lb =
     (if sint (current lb) < 0 \<or> int (length (engines lb)) \<le> sint (current lb)
      then (Panic ''index out of range'', lb)
      else
        let engineID = engines lb ! nat (sint (current lb));
            lb' = lb\<lparr>current := of_nat ((nat (sint (current lb)) + 1) mod length (engines lb))\<rparr>
        in if sint (get_int (RoundRobinLoadBalancer.activeWorkflows lb) engineID)
                < sint (get_int (RoundRobinLoadBalancer.capacities lb) engineID)
           then (Value engineID, lb')
           else if current lb' = start then (Value engineID, lb')
           else rrLoop n start lb')"

definition RR_SelectEngine ::
  "RoundRobinLoadBalancer \<Rightarrow> string \<Rightarrow> string outcome \<times> RoundRobinLoadBalancer" where
  "RR_SelectEngine lb key =
     (if length (engines lb) = 0 then (Failure NoEnginesAvailable, lb)
      else rrLoop (length (engines lb)) (current lb) lb)"

text \<open>
  \<open>SelectEngine\<close> of the consistent-hash balancer.  \<open>owner\<close> is the ring's lookup
  (\<open>hashRing.Get\<close>), a function of the hosts on the ring and the key.
\<close>

definition CH_SelectEngine ::
  "(string list \<Rightarrow> string \<Rightarrow> string) \<Rightarrow> ConsistentHashLoadBalancer \<Rightarrow> string \<Rightarrow> string outcome" where
  "CH_SelectEngine owner lb key =
     (if length (hashRing lb) = 0 then Failure NoEnginesAvailable
      else Value (owner (hashRing lb) key))"

definition CH_UpdateEngineCapacity ::
  "string \<Rightarrow> go_int \<Rightarrow> ConsistentHashLoadBalancer \<Rightarrow> orch_error option \<times> ConsistentHashLoadBalancer" where
  "CH_UpdateEngineCapacity engineID c lb =
     (if map_of (ConsistentHashLoadBalancer.capacities lb) engineID = None
      then (Some (EngineNotFound engineID), lb)
      else (None, lb\<lparr>ConsistentHashLoadBalancer.capacities :=
                       AList.update engineID c (ConsistentHashLoadBalancer.capacities lb)\<rparr>))"

text \<open>A value of the interface type \<open>LoadBalancer\<close>: one of its two implementations.\<close>

datatype LoadBalancer =
    ConsistentHash ConsistentHashLoadBalancer
  | RoundRobin RoundRobinLoadBalancer

fun LB_AddEngine :: "string \<Rightarrow> go_int \<Rightarrow> LoadBalancer \<Rightarrow> LoadBalancer" where
  "LB_AddEngine e c (ConsistentHash lb) = ConsistentHash (CH_AddEngine e c lb)"
| "LB_AddEngine e c (RoundRobin lb) = RoundRobin (snd (RR_AddEngine e c lb))"

fun LB_RemoveEngine :: "string \<Rightarrow> LoadBalancer \<Rightarrow> LoadBalancer" where
  "LB_RemoveEngine e (ConsistentHash lb) = ConsistentHash (CH_RemoveEngine e lb)"
| "LB_RemoveEngine e (RoundRobin lb) = RoundRobin (snd (RR_RemoveEngine e lb))"

fun LB_UpdateEngineCapacity :: "string \<Rightarrow> go_int \<Rightarrow> LoadBalancer \<Rightarrow> LoadBalancer" where
  "LB_UpdateEngineCapacity e c (ConsistentHash lb) = ConsistentHash (snd (CH_UpdateEngineCapacity e c lb))"
| "LB_UpdateEngineCapacity e c (RoundRobin lb) = RoundRobin (snd (RR_UpdateEngineCapacity e c lb))"

fun LB_SelectEngine ::
  "(string list \<Rightarrow> string \<Rightarrow> string) \<Rightarrow> LoadBalancer \<Rightarrow> string \<Rightarrow> string outcome \<times> LoadBalancer" where
  "LB_SelectEngine owner (ConsistentHash lb) key = (CH_SelectEngine owner lb key, ConsistentHash lb)"
| "LB_SelectEngine owner (RoundRobin lb) key =
     (case RR_SelectEngine lb key of (r, lb') \<Rightarrow> (r, RoundRobin lb'))"

fun isConsistentHash :: "LoadBalancer \<Rightarrow> bool" where
  "isConsistentHash (ConsistentHash lb) = True"
| "isConsistentHash (RoundRobin lb) = False"


section \<open>orchestrator: the dispatcher\<close>

record Config =
  TransportType :: string
  K8sNamespace :: string
  K8sServiceName :: string
  K8sLabelSelector :: string
  InClusterConfig :: bool
  LoadBalancerType :: string
  LoadBalancerNodes :: go_int
  GRPCAddress :: string
  GRPCPort :: go_int
  MaxConnections :: go_int
  ConnectionTimeout :: go_int
  EngineDiscoveryInterval :: go_int
  EngineHealthCheckInterval :: go_int

definition Validate :: "Config \<Rightarrow> orch_error option" where
  "Validate c =
     (if TransportType c \<noteq> ''grpc'' then Some (UnsupportedTransport (TransportType c))
      else if LoadBalancerType c \<noteq> ''consistent-hash'' \<and> LoadBalancerType c \<noteq> ''round-robin''
              \<and> LoadBalancerType c \<noteq> ''least-connections''
      then Some (UnsupportedLoadBalancer (LoadBalancerType c))
      else if sint (GRPCPort c) \<le> 0 \<or> sint (GRPCPort c) > 65535
      then Some (InvalidGRPCPort (GRPCPort c))
      else None)"

record EngineInfo =
  ID :: string
  Address :: string
  Port :: go_int
  Capacity :: go_int
  Metadata :: "(string \<times> string) list"
  LastSeen :: go_int

record OrchestratorV2 =
  config :: Config
  workflowManager :: WorkflowManager
  loadBalancer :: LoadBalancer
  engines :: "EngineInfo go_map"
  subWorkflowCoord :: SubWorkflowCoordinator
  executionCounter :: go_int

text \<open>
  \<open>NewOrchestratorV2\<close>.  \<open>discoveryError\<close> is what creating the service discovery
  returns (\<open>None\<close> for success).  The execution counter starts at its zero value.
\<close>

definition NewOrchestratorV2 :: "Config \<Rightarrow> string option \<Rightarrow> orch_error + OrchestratorV2" where
  "NewOrchestratorV2 cfg discoveryError =
     (case Validate cfg of
        Some err \<Rightarrow> Inl (InvalidConfig err)
      | None \<Rightarrow>
          if LoadBalancerType cfg \<noteq> ''consistent-hash'' \<and> LoadBalancerType cfg \<noteq> ''round-robin''
          then Inl (UnsupportedLoadBalancer (LoadBalancerType cfg))
          else if TransportType cfg \<noteq> ''grpc''
          then Inl (UnsupportedTransport (TransportType cfg))
          else (case discoveryError of
                  Some msg \<Rightarrow> Inl (DiscoveryFailed msg)
                | None \<Rightarrow>
                    Inr \<lparr>config = cfg,
                         workflowManager = NewWorkflowManager,
                         loadBalancer =
                           (if LoadBalancerType cfg = ''consistent-hash''
                            then ConsistentHash (NewConsistentHashLoadBalancer (LoadBalancerNodes cfg))
                            else RoundRobin NewRoundRobinLoadBalancer),
                         engines = [],
                         subWorkflowCoord = NewSubWorkflowCoordinator,
                         executionCounter = 0\<rparr>))"

definition OrchestratorV2_RegisterWorkflow ::
  "OrchestratorV2 \<Rightarrow> go_int \<Rightarrow> string \<Rightarrow> string \<Rightarrow> build_result \<Rightarrow> (go_value go_map) option
     \<Rightarrow> register_result \<times> OrchestratorV2" where
  "OrchestratorV2_RegisterWorkflow orch now workflowID version builder meta =
     (case RegisterWorkflow (workflowManager orch) now workflowID version builder meta of
        (r, wm) \<Rightarrow> (r, orch\<lparr>workflowManager := wm\<rparr>))"

text \<open>
  The discovery callback \<open>onChange\<close>: new engines are stored and added to the
  balancer, known ones are refreshed, and engines missing from the list are
  removed.
\<close>

fun reconcile :: "EngineInfo list \<Rightarrow> OrchestratorV2 \<Rightarrow> OrchestratorV2" where
  "reconcile [] orch = orch"
| "reconcile (info # rest) orch =
     reconcile rest
       (case map_of (OrchestratorV2.engines orch) (EngineInfo.ID info) of
          None \<Rightarrow>
            orch\<lparr>OrchestratorV2.engines :=
                 AList.update (EngineInfo.ID info) info (OrchestratorV2.engines orch),
               loadBalancer := LB_AddEngine (EngineInfo.ID info) (Capacity info) (loadBalancer orch)\<rparr>
        | Some existing \<Rightarrow>
            orch\<lparr>OrchestratorV2.engines :=
                 AList.update (EngineInfo.ID info)
                   (existing\<lparr>Address := Address info, Port := Port info,
                             Capacity := Capacity info, LastSeen := LastSeen info\<rparr>)
                   (OrchestratorV2.engines orch),
               loadBalancer :=
                 LB_UpdateEngineCapacity (EngineInfo.ID info) (Capacity info) (loadBalancer orch)\<rparr>)"

fun removeMissing :: "string list \<Rightarrow> string list \<Rightarrow> OrchestratorV2 \<Rightarrow> OrchestratorV2" where
  "removeMissing present [] orch = orch"
| "removeMissing present (engineID # rest) orch =
     removeMissing present rest
       (if engineID \<in> set present then orch
        else orch\<lparr>OrchestratorV2.engines := AList.delete engineID (OrchestratorV2.engines orch),
               loadBalancer := LB_RemoveEngine engineID (loadBalancer orch)\<rparr>)"

definition onChange :: "OrchestratorV2 \<Rightarrow> EngineInfo list \<Rightarrow> OrchestratorV2" where
  "onChange orch found =
     (let o1 = reconcile found orch
      in removeMissing (map EngineInfo.ID found) (map fst (OrchestratorV2.engines o1)) o1)"

text \<open>
  \<open>nextExecutionID\<close>, run under the counter's mutex: the counter is incremented and
  the id is built from the clock reading \<open>now\<close> and the new counter value.
\<close>

definition nextExecutionID :: "OrchestratorV2 \<Rightarrow> go_int \<Rightarrow> string \<times> OrchestratorV2" where
  "nextExecutionID orch now =
     (''exec-'' @ formatInt now @ ''-'' @ formatInt (executionCounter orch + 1),
      orch\<lparr>executionCounter := executionCounter orch + 1\<rparr>)"

text \<open>
  The ids returned by a sequence of \<open>nextExecutionID\<close> calls on one dispatcher, one
  clock reading per call.  The mutex serialises concurrent callers, so any
  interleaving of calls is such a sequence.
\<close>

fun mintIDs :: "OrchestratorV2 \<Rightarrow> go_int list \<Rightarrow> string list" where
  "mintIDs orch [] = []"
| "mintIDs orch (now # rest) = fst (nextExecutionID orch now) # mintIDs (snd (nextExecutionID orch now)) rest"


text \<open>The transport's response to \<open>conn.ExecuteWorkflow\<close>, and the dispatcher's own.\<close>

record TransportResponse =
  ExecutionID :: string
  Success :: bool
  ErrorMessage :: string
  Outputs :: "(string \<times> string) list"
  DurationNanos :: go_int

record WorkflowResponse =
  WorkflowID :: string
  Success :: bool
  Outputs :: "go_value go_map"
  Duration :: go_int
  Metadata :: "go_value go_map"

text \<open>
  What the outside world answers during one \<open>ExecuteWorkflow\<close> call: the clock
  reading used for the execution id, the result of \<open>transport.Connect\<close> (\<open>None\<close> for a
  connection), the result of the remote call, and the time it took.
\<close>

record call_env =
  clockReading :: go_int
  connectError :: "string option"
  remoteResult :: "string + TransportResponse"
  elapsed :: go_int

datatype call_result =
    Returns "WorkflowResponse option" "orch_error option"
  | Panics string

text \<open>
  \<open>ExecuteWorkflow\<close> up to the active-count bookkeeping: either an early result, or
  the engine id, execution id and version with which the bookkeeping step is
  reached.
\<close>

definition dispatchSteps ::
  "(string list \<Rightarrow> string \<Rightarrow> string) \<Rightarrow> OrchestratorV2 \<Rightarrow> call_env \<Rightarrow> string
     \<Rightarrow> (call_result + string \<times> string \<times> string) \<times> OrchestratorV2" where
  "dispatchSteps owner orch env workflowID =
     (if \<not> HasWorkflow (workflowManager orch) workflowID
      then (Inl (Returns None (Some (WorkflowUnknown workflowID))), orch)
      else
        case WM_GetLatestVersion (workflowManager orch) workflowID of
          Inl e \<Rightarrow> (Inl (Returns None (Some (VersionLookupFailed e))), orch)
        | Inr version \<Rightarrow>
            (case nextExecutionID orch (clockReading env) of
               (executionID, orch1) \<Rightarrow>
                 (case LB_SelectEngine owner (loadBalancer orch1) workflowID of
                    (Panic msg, lb) \<Rightarrow> (Inl (Panics msg), orch1\<lparr>loadBalancer := lb\<rparr>)
                  | (Failure e, lb) \<Rightarrow>
                      (Inl (Returns None (Some (SelectEngineFailed e))), orch1\<lparr>loadBalancer := lb\<rparr>)
                  | (Value engineID, lb) \<Rightarrow>
                      (case map_of (OrchestratorV2.engines orch1) engineID of
                         None \<Rightarrow>
                           (Inl (Returns None (Some (EngineNotFound engineID))),
                            orch1\<lparr>loadBalancer := lb\<rparr>)
                       | Some engineInfo \<Rightarrow>
                           (case BuildWorkflow (workflowManager orch1) workflowID of
                              Inl e \<Rightarrow>
                                (Inl (Returns None (Some (BuildWorkflowFailed e))),
                                 orch1\<lparr>loadBalancer := lb\<rparr>)
                            | Inr def \<Rightarrow>
                                (case connectError env of
                                   Some msg \<Rightarrow>
                                     (Inl (Returns None (Some (ConnectFailed msg))),
                                      orch1\<lparr>loadBalancer := lb\<rparr>)
                                 | None \<Rightarrow>
                                     (Inr (engineID, executionID, version),
                                      orch1\<lparr>loadBalancer := lb\<rparr>)))))))"

text \<open>
  \<open>OrchestratorV2.ExecuteWorkflow\<close>.  At the bookkeeping step the balancer is
  asserted to be a \<open>*ConsistentHashLoadBalancer\<close>; the assertion has no second
  result, so it panics on any other implementation.  Otherwise the count is
  incremented, the remote call is made, and the deferred function decrements.
\<close>

definition OrchestratorV2_ExecuteWorkflow ::
  "(string list \<Rightarrow> string \<Rightarrow> string) \<Rightarrow> OrchestratorV2 \<Rightarrow> call_env \<Rightarrow> string \<Rightarrow> go_value go_map
     \<Rightarrow> call_result \<times> OrchestratorV2" where
  "OrchestratorV2_ExecuteWorkflow owner orch env workflowID inputs =
     (case dispatchSteps owner orch env workflowID of
        (Inl early, orch') \<Rightarrow> (early, orch')
      | (Inr (engineID, executionID, version), orch') \<Rightarrow>
          (case loadBalancer orch' of
             RoundRobin rr \<Rightarrow>
               (Panics ''interface conversion: LoadBalancer is not *ConsistentHashLoadBalancer'', orch')
           | ConsistentHash ch \<Rightarrow>
               let done = orch'\<lparr>loadBalancer :=
                             ConsistentHash (DecrementActiveWorkflows engineID
                                               (IncrementActiveWorkflows engineID ch))\<rparr>
               in (case remoteResult env of
                     Inl msg \<Rightarrow>
                       (Returns
                          (Some \<lparr>WorkflowResponse.WorkflowID = workflowID, Success = False,
                                 Outputs = [], Duration = elapsed env, Metadata = []\<rparr>)
                          (Some (RemoteCallFailed msg)),
                        done)
                   | Inr resp \<Rightarrow>
                       (Returns
                          (Some \<lparr>WorkflowResponse.WorkflowID = workflowID,
                                 Success = TransportResponse.Success resp,
                                 Outputs = map (\<lambda>(k, v). (k, VString v)) (TransportResponse.Outputs resp),
                                 Duration = elapsed env,
                                 Metadata = [(''engine_id'', VString engineID),
                                             (''execution_id'', VString executionID),
                                             (''version'', VString version)]\<rparr>)
                          None,
                        done))))"

text \<open>
  A configuration asking for the round-robin balancer, the dispatcher the
  constructor makes from it, and that dispatcher after discovery has reported one
  engine and a workflow has been registered.
\<close>

definition roundRobinConfig :: Config where
  "roundRobinConfig =
     \<lparr>TransportType = ''grpc'', K8sNamespace = ''default'', K8sServiceName = ''workflow-engines'',
      K8sLabelSelector = ''app=workflow-engine'', InClusterConfig = True,
      LoadBalancerType = ''round-robin'', LoadBalancerNodes = 150, GRPCAddress = ''0.0.0.0'',
      GRPCPort = 50051, MaxConnections = 100, ConnectionTimeout = 30,
      EngineDiscoveryInterval = 30, EngineHealthCheckInterval = 10\<rparr>"

definition roundRobinOrchestrator :: OrchestratorV2 where
  "roundRobinOrchestrator =
     \<lparr>config = roundRobinConfig, workflowManager = NewWorkflowManager,
      loadBalancer = RoundRobin NewRoundRobinLoadBalancer, engines = [],
      subWorkflowCoord = NewSubWorkflowCoordinator, executionCounter = 0\<rparr>"

definition readyRoundRobin :: OrchestratorV2 where
  "readyRoundRobin =
     snd (OrchestratorV2_RegisterWorkflow
            (onChange roundRobinOrchestrator
               [\<lparr>EngineInfo.ID = ''e1'', Address = ''10.0.0.1'', Port = 50051, Capacity = 10,
                 Metadata = [], LastSeen = 1\<rparr>])
            100 ''w'' ''1.0.0'' (Built (Some (oneNodeDef ''w'' ''1.0.0'' []))) None)"

definition calmEnv :: call_env where
  "calmEnv =
     \<lparr>clockReading = 5, connectError = None,
      remoteResult = Inr \<lparr>TransportResponse.ExecutionID = ''exec-5-1'', Success = True,
                          ErrorMessage = [], Outputs = [], DurationNanos = 3\<rparr>,
      elapsed = 4\<rparr>"


text \<open>The same with the consistent-hash balancer, and a ring lookup to run it with.\<close>

definition consistentHashOrchestrator :: OrchestratorV2 where
  "consistentHashOrchestrator =
     \<lparr>config = roundRobinConfig\<lparr>LoadBalancerType := ''consistent-hash''\<rparr>,
      workflowManager = NewWorkflowManager,
      loadBalancer = ConsistentHash (NewConsistentHashLoadBalancer 150), engines = [],
      subWorkflowCoord = NewSubWorkflowCoordinator, executionCounter = 0\<rparr>"

definition readyConsistentHash :: OrchestratorV2 where
  "readyConsistentHash =
     snd (OrchestratorV2_RegisterWorkflow
            (onChange consistentHashOrchestrator
               [\<lparr>EngineInfo.ID = ''e1'', Address = ''10.0.0.1'', Port = 50051, Capacity = 10,
                 Metadata = [], LastSeen = 1\<rparr>])
            100 ''w'' ''1.0.0'' (Built (Some (oneNodeDef ''w'' ''1.0.0'' []))) None)"

definition firstHost :: "string list \<Rightarrow> string \<Rightarrow> string" where
  "firstHost hosts key = (case hosts of [] \<Rightarrow> [] | h # rest \<Rightarrow> h)"


section \<open>Facts about Go values\<close>

lemma get_int_update: "get_int (AList.update k v m) k' = (if k' = k then v else get_int m k')"
  by (simp add: get_int_def update_conv')

lemma sint_of_small_unat:
  fixes w :: go_int
  assumes "unat w < 2 ^ 63"
  shows "sint w = int (unat w)"
proof -
  have "int (unat w) < int (2 ^ 63)" using assms by (simp only: of_nat_less_iff)
  then have "uint w < 2 ^ 63" by simp
  moreover have "- (2 ^ 63) \<le> uint w"
    by (rule order_trans [of _ 0]) simp_all
  ultimately have "signed_take_bit 63 (uint w) = uint w"
    by (rule signed_take_bit_int_eq_self [rotated])
  then show ?thesis by (simp add: sint_uint)
qed

lemma unat_inc_le: "unat (w + 1 :: go_int) \<le> unat w + 1"
  by (metis (mono_tags, lifting) of_nat_add of_nat_le_iff of_nat_unat uint_add_le unsigned_1)

lemma unat_dec_le: "unat (w - 1 :: go_int) \<le> unat w" if "0 < sint w"
proof -
  from that have "w \<noteq> 0" by auto
  then have "unat (w - 1) = unat w - 1" by (metis unat_minus_one)
  then show ?thesis by simp
qed


section \<open>The engine service's capacity gate\<close>

text \<open>
  C7.  \<open>EngineService.ExecuteWorkflow\<close> returns an error exactly when the number of
  active executions is at least the capacity; the error is the at-capacity error
  and the service is left as it was, so no record is created.  When it succeeds,
  the new execution is recorded as RUNNING.  The witness is the scenario of the
  claim: capacity 1, a first execution still active, a second one refused with no
  record of its own.
\<close>

theorem ExecuteWorkflow_at_capacity_iff:
  "(fst (EngineService_ExecuteWorkflow es now w v x g) \<noteq> None
      \<longleftrightarrow> sint (capacity es) \<le> int (EngineService_GetActiveWorkflows es))
   \<and> (fst (EngineService_ExecuteWorkflow es now w v x g) \<noteq> None \<longrightarrow>
        EngineService_ExecuteWorkflow es now w v x g = (Some (AtCapacity (capacity es)), es))
   \<and> (fst (EngineService_ExecuteWorkflow es now w v x g) = None \<longrightarrow>
        GetWorkflowStatus (snd (EngineService_ExecuteWorkflow es now w v x g)) x = Inr ''RUNNING'')"
  by (simp add: EngineService_ExecuteWorkflow_def EngineService_GetActiveWorkflows_def
      GetWorkflowStatus_def update_conv')

theorem ExecuteWorkflow_at_capacity_iff_witness:
  "EngineService_GetActiveWorkflows
     (snd (EngineService_ExecuteWorkflow (NewEngineService ''e1'' 1) 5 ''wf'' ''1.0.0'' ''exec-1'' NewDAGEngine)) = 1
   \<and> EngineService_ExecuteWorkflow
        (snd (EngineService_ExecuteWorkflow (NewEngineService ''e1'' 1) 5 ''wf'' ''1.0.0'' ''exec-1'' NewDAGEngine))
        6 ''wf'' ''1.0.0'' ''exec-2'' NewDAGEngine
      = (Some (AtCapacity 1),
         snd (EngineService_ExecuteWorkflow (NewEngineService ''e1'' 1) 5 ''wf'' ''1.0.0'' ''exec-1'' NewDAGEngine))
   \<and> GetWorkflowStatus
        (snd (EngineService_ExecuteWorkflow
               (snd (EngineService_ExecuteWorkflow (NewEngineService ''e1'' 1) 5 ''wf'' ''1.0.0'' ''exec-1'' NewDAGEngine))
               6 ''wf'' ''1.0.0'' ''exec-2'' NewDAGEngine)) ''exec-2''
      = Inl (ExecutionNotFound ''exec-2'')
   \<and> GetWorkflowStatus
        (snd (EngineService_ExecuteWorkflow (NewEngineService ''e1'' 1) 5 ''wf'' ''1.0.0'' ''exec-1'' NewDAGEngine))
        ''exec-1'' = Inr ''RUNNING''"
  using ExecuteWorkflow_at_capacity_iff
          [of "snd (EngineService_ExecuteWorkflow (NewEngineService ''e1'' 1) 5 ''wf'' ''1.0.0'' ''exec-1'' NewDAGEngine)"
              6 "''wf''" "''1.0.0''" "''exec-2''" NewDAGEngine]
        ExecuteWorkflow_at_capacity_iff
          [of "NewEngineService ''e1'' 1" 5 "''wf''" "''1.0.0''" "''exec-1''" NewDAGEngine]
  by (simp add: EngineService_ExecuteWorkflow_def EngineService_GetActiveWorkflows_def
      GetWorkflowStatus_def NewEngineService_def len_map_def)


text \<open>
  Once the goroutine of the first execution has finished and deleted its record,
  the engine admits the next execution.
\<close>

lemma capacity_freed_when_run_finishes:
  "fst (EngineService_ExecuteWorkflow
          (EngineService_runFinished
             (snd (EngineService_ExecuteWorkflow (NewEngineService ''e1'' 1) 5 ''wf'' ''1.0.0'' ''exec-1'' NewDAGEngine))
             ''exec-1'')
          6 ''wf'' ''1.0.0'' ''exec-2'' NewDAGEngine) = None"
  by (simp add: EngineService_ExecuteWorkflow_def EngineService_runFinished_def
      NewEngineService_def len_map_def)


section \<open>The load balancer's active counts\<close>

lemma countsBelow_applyCall:
  assumes "countsBelow k lb"
  shows "countsBelow (k + (if isIncrement c then 1 else 0)) (applyCall lb c)"
proof (cases c)
  case (CallAddEngine e cap)
  with assms show ?thesis
    by (simp add: countsBelow_def GetActiveWorkflows_def CH_AddEngine_def get_int_update)
next
  case (CallIncrement e)
  have "unat (get_int (ConsistentHashLoadBalancer.activeWorkflows lb) e + 1) \<le> Suc k"
    using assms unat_inc_le [of "get_int (ConsistentHashLoadBalancer.activeWorkflows lb) e"]
    by (simp add: countsBelow_def GetActiveWorkflows_def) (meson le_SucI le_trans not_less_eq_eq)
  with assms CallIncrement show ?thesis
    by (simp add: countsBelow_def GetActiveWorkflows_def IncrementActiveWorkflows_def get_int_update le_SucI)
next
  case (CallDecrement e)
  show ?thesis
  proof (cases "0 < sint (get_int (ConsistentHashLoadBalancer.activeWorkflows lb) e)")
    case True
    then have "unat (get_int (ConsistentHashLoadBalancer.activeWorkflows lb) e - 1) \<le> k"
      using assms unat_dec_le [of "get_int (ConsistentHashLoadBalancer.activeWorkflows lb) e"]
      by (simp add: countsBelow_def GetActiveWorkflows_def) (meson le_trans)
    with assms CallDecrement True show ?thesis
      by (simp add: countsBelow_def GetActiveWorkflows_def DecrementActiveWorkflows_def get_int_update)
  next
    case False
    with assms CallDecrement show ?thesis
      by (simp add: DecrementActiveWorkflows_def)
  qed
qed

lemma countsBelow_foldl:
  "countsBelow k lb \<Longrightarrow> countsBelow (k + length (filter isIncrement cs)) (foldl applyCall lb cs)"
proof (induction cs arbitrary: k lb)
  case Nil
  then show ?case by simp
next
  case (Cons c cs)
  from countsBelow_applyCall [OF Cons.prems, of c]
  have "countsBelow (k + (if isIncrement c then 1 else 0) + length (filter isIncrement cs))
          (foldl applyCall (applyCall lb c) cs)"
    by (rule Cons.IH)
  then show ?case by (cases "isIncrement c") simp_all
qed

lemma countsBelow_New: "countsBelow 0 (NewConsistentHashLoadBalancer v)"
  by (simp add: countsBelow_def GetActiveWorkflows_def NewConsistentHashLoadBalancer_def get_int_def)

text \<open>
  C10.  Starting from a new consistent-hash balancer, after any sequence of
  \<open>AddEngine\<close>, \<open>IncrementActiveWorkflows\<close> and \<open>DecrementActiveWorkflows\<close> calls (each
  call runs under the balancer's lock, so an interleaving is a sequence),
  \<open>GetActiveWorkflows\<close> is not negative for any engine id.  The count is a 64-bit
  \<open>int\<close>; the sequence is taken to hold fewer than \<open>2^63\<close> increments, below which
  the count cannot wrap.  \<open>DecrementActiveWorkflows\<close> changes nothing at zero.
\<close>

theorem active_count_never_negative:
  assumes "length (filter isIncrement calls) < 2 ^ 63"
  shows "0 \<le> sint (GetActiveWorkflows (foldl applyCall (NewConsistentHashLoadBalancer v) calls) engineID)"
proof -
  have "countsBelow (0 + length (filter isIncrement calls))
          (foldl applyCall (NewConsistentHashLoadBalancer v) calls)"
    by (rule countsBelow_foldl [OF countsBelow_New])
  then have "unat (GetActiveWorkflows (foldl applyCall (NewConsistentHashLoadBalancer v) calls) engineID) < 2 ^ 63"
    using assms by (simp add: countsBelow_def) (meson le_less_trans)
  then show ?thesis by (simp add: sint_of_small_unat)
qed

theorem active_count_never_negative_witness:
  "length (filter isIncrement
      [CallAddEngine ''e1'' 2, CallDecrement ''e1'', CallIncrement ''e1'',
       CallDecrement ''e1'', CallDecrement ''e1'']) < 2 ^ 63
   \<and> 0 \<le> sint (GetActiveWorkflows (foldl applyCall (NewConsistentHashLoadBalancer 150)
        [CallAddEngine ''e1'' 2, CallDecrement ''e1'', CallIncrement ''e1'',
         CallDecrement ''e1'', CallDecrement ''e1'']) ''e1'')
   \<and> GetActiveWorkflows (foldl applyCall (NewConsistentHashLoadBalancer 150)
        [CallAddEngine ''e1'' 2, CallDecrement ''e1'', CallIncrement ''e1'',
         CallDecrement ''e1'', CallDecrement ''e1'']) ''e1'' = 0"
  using active_count_never_negative
          [of "[CallAddEngine ''e1'' 2, CallDecrement ''e1'', CallIncrement ''e1'',
                CallDecrement ''e1'', CallDecrement ''e1'']" 150 "''e1''"]
  by (simp add: NewConsistentHashLoadBalancer_def CH_AddEngine_def IncrementActiveWorkflows_def
      DecrementActiveWorkflows_def GetActiveWorkflows_def get_int_def)


section \<open>Graph preprocessing\<close>

lemma keys_update_present: "map_of ns p = Some v \<Longrightarrow> map fst (AList.update p w ns) = map fst ns"
  by (metis update_keys map_of_eq_None_iff option.distinct(1) set_map)

lemma linkParents_keys: "map fst (fst (linkParents c ps ns)) = map fst ns"
  by (induction ps arbitrary: ns) (auto split: option.splits simp: keys_update_present)

lemma linkParents_error_iff:
  "snd (linkParents c ps ns) \<noteq> None \<longleftrightarrow> (\<exists>p\<in>set ps. p \<notin> set (map fst ns))"
proof (induction ps arbitrary: ns)
  case Nil
  then show ?case by simp
next
  case (Cons p ps)
  show ?case
  proof (cases "map_of ns p")
    case None
    then have "p \<notin> set (map fst ns)" by (simp add: map_of_eq_None_iff)
    then show ?thesis by (simp add: None)
  next
    case (Some v)
    then have "p \<in> set (map fst ns)" by (metis map_of_eq_None_iff option.distinct(1) set_map)
    with Some Cons.IH [of "AList.update p (v\<lparr>Children := Children v @ [c]\<rparr>) ns"]
    show ?thesis by (simp add: keys_update_present)
  qed
qed

lemma linkAll_error_iff:
  "snd (linkAll cs ns) \<noteq> None \<longleftrightarrow> (\<exists>(c, deps)\<in>set cs. \<exists>p\<in>set deps. p \<notin> set (map fst ns))"
proof (induction cs arbitrary: ns)
  case Nil
  then show ?case by simp
next
  case (Cons cd cs)
  obtain c deps where cd: "cd = (c, deps)" by (cases cd)
  obtain ns' err where lp: "linkParents c deps ns = (ns', err)" by (cases "linkParents c deps ns")
  have keys: "map fst ns' = map fst ns" using linkParents_keys [of c deps ns] lp by simp
  have err: "err \<noteq> None \<longleftrightarrow> (\<exists>p\<in>set deps. p \<notin> set (map fst ns))"
    using linkParents_error_iff [of c deps ns] lp by simp
  show ?case
  proof (cases err)
    case None
    with cd lp err Cons.IH [of ns'] keys show ?thesis by simp
  next
    case (Some e)
    with cd lp err show ?thesis by auto
  qed
qed

text \<open>
  The half of the validation that \<open>PreprocessDAG\<close> does perform: it returns an error
  exactly when some node lists a dependency that is not a key of the node map.
\<close>

lemma PreprocessDAG_error_iff:
  "fst (PreprocessDAG e) \<noteq> None \<longleftrightarrow>
     (\<exists>(k, n)\<in>set (DAGEngine.Nodes e). \<exists>p\<in>set (Node.Dependencies n). map_of (DAGEngine.Nodes e) p = None)"
proof -
  let ?cl = "clearChildren (DAGEngine.Nodes e)"
  have keys: "map fst ?cl = map fst (DAGEngine.Nodes e)"
    by (simp add: clearChildren_def case_prod_unfold)
  have deps: "map (\<lambda>(k, n). (k, Node.Dependencies n)) ?cl
                = map (\<lambda>(k, n). (k, Node.Dependencies n)) (DAGEngine.Nodes e)"
    by (simp add: clearChildren_def case_prod_unfold)
  have "fst (PreprocessDAG e) = snd (linkAll (map (\<lambda>(k, n). (k, Node.Dependencies n)) ?cl) ?cl)"
    by (simp add: PreprocessDAG_def Let_def case_prod_unfold)
  then have "fst (PreprocessDAG e) \<noteq> None \<longleftrightarrow>
      (\<exists>(c, ds)\<in>set (map (\<lambda>(k, n). (k, Node.Dependencies n)) (DAGEngine.Nodes e)).
         \<exists>p\<in>set ds. p \<notin> set (map fst (DAGEngine.Nodes e)))"
    using linkAll_error_iff [of "map (\<lambda>(k, n). (k, Node.Dependencies n)) ?cl" ?cl] keys deps
    by simp
  also have "\<dots> \<longleftrightarrow>
      (\<exists>(k, n)\<in>set (DAGEngine.Nodes e). \<exists>p\<in>set (Node.Dependencies n). map_of (DAGEngine.Nodes e) p = None)"
    by (force simp: map_of_eq_None_iff)
  finally show ?thesis .
qed

text \<open>
  C4.  \<open>PreprocessDAG\<close> has no cycle detection.  For the graph in which \<open>A\<close> depends on
  \<open>B\<close> and \<open>B\<close> on \<open>A\<close> it returns no error, and \<open>Run\<close> on the preprocessed graph
  returns \<open>nil\<close> at once, with both nodes still PENDING: the cyclic graph is accepted
  for execution and nothing reports it.
\<close>

theorem PreprocessDAG_accepts_cycle:
  "fst (PreprocessDAG twoCycle) = None
   \<and> map_option (\<lambda>(err, e). (err, statuses e)) (Run (snd (PreprocessDAG twoCycle)) [])
       = Some (None, [(''A'', ''PENDING''), (''B'', ''PENDING'')])"
  by code_simp


section \<open>Runs with a failing node\<close>

text \<open>Whenever \<open>Run\<close> returns, it returns \<open>nil\<close>.\<close>

lemma Run_never_fails: "Run e schedule = Some (err, e') \<Longrightarrow> err = None"
  by (simp add: Run_def Let_def split: if_splits)

text \<open>
  C1.  In the diamond whose node \<open>C\<close> fails, take the run in which \<open>A\<close> completes and
  launches \<open>B\<close> and \<open>C\<close>, \<open>C\<close> fails, and \<open>B\<close> completes.  Then the wait group is at zero
  and \<open>Run\<close> returns \<open>nil\<close>: no error is returned although \<open>C\<close> is FAILED.
\<close>

theorem Run_returns_nil_after_node_failure:
  "map_option (\<lambda>(err, e). (err, statuses e))
     (Run diamond [''A'', ''A'', ''A'', ''C'', ''C'', ''B'', ''B'', ''B''])
   = Some (None, [(''A'', ''COMPLETED''), (''B'', ''COMPLETED''),
                  (''C'', ''FAILED''), (''D'', ''PENDING'')])"
  by code_simp

text \<open>
  C5.  In the graph with two branches, let \<open>A\<close> fail first.  At that moment \<open>C\<close> is
  PENDING and has no goroutine.  When \<open>B\<close> then completes, \<open>triggerChildren\<close> launches
  \<open>C\<close>, which runs to COMPLETED.  \<open>D\<close>, whose only parent failed, is never executed,
  but its status stays PENDING: nothing marks it CANCELLED.
\<close>

theorem pending_node_launched_after_failure:
  "statuses (engine (during branches [''A'', ''A''])) =
      [(''A'', ''FAILED''), (''B'', ''PENDING''), (''C'', ''PENDING''), (''D'', ''PENDING'')]
   \<and> goroutines (during branches [''A'', ''A'']) = [(''B'', Spawned)]
   \<and> goroutines (during branches [''A'', ''A'', ''B'', ''B'', ''B'']) = [(''C'', Spawned)]
   \<and> map_option (\<lambda>(err, e). (err, statuses e))
        (Run branches [''A'', ''A'', ''B'', ''B'', ''B'', ''C'', ''C'', ''C''])
      = Some (None, [(''A'', ''FAILED''), (''B'', ''COMPLETED''),
                     (''C'', ''COMPLETED''), (''D'', ''PENDING'')])"
  by code_simp


section \<open>The version registry\<close>

text \<open>
  C2.  Register \<open>w\<close> 1.0.0, then \<open>x\<close> 1.0.0 whose node metadata references \<open>w\<close> as a
  sub-workflow.  \<open>x\<close> records \<open>w\<close> among its dependencies, but the dependents of
  \<open>w\<close>'s latest version stay empty: \<open>updateDependencies\<close> only fills the dependents
  of the version being registered.  So \<open>CanUpdate\<close> admits \<open>w\<close> 2.0.0, the
  registration succeeds, and 2.0.0 becomes the latest version of \<open>w\<close>.
\<close>

theorem later_dependent_not_recorded:
  "GetDependents (WorkflowManager.versions afterWX) ''w'' = []
   \<and> map_option WorkflowVersion.Dependencies
        (map_of (latest (WorkflowManager.versions afterWX)) ''x'') = Some [''w'']
   \<and> CanUpdate (WorkflowManager.versions afterWX) ''w'' ''2.0.0'' = (True, [], None)
   \<and> fst (RegisterWorkflow afterWX 102 ''w'' ''2.0.0''
             (Built (Some (oneNodeDef ''w'' ''2.0.0'' []))) None) = Returned None
   \<and> WM_GetLatestVersion
        (snd (RegisterWorkflow afterWX 102 ''w'' ''2.0.0''
                (Built (Some (oneNodeDef ''w'' ''2.0.0'' []))) None)) ''w'' = Inr ''2.0.0''"
  by code_simp

text \<open>
  In the other order the gate works: when \<open>x\<close> is already registered, registering
  \<open>w\<close> finds it, and a new version of \<open>w\<close> is refused with the list \<open>[x]\<close>.
\<close>

lemma earlier_dependent_recorded:
  "GetDependents (WorkflowManager.versions afterXW) ''w'' = [''x'']
   \<and> fst (RegisterWorkflow afterXW 102 ''w'' ''2.0.0''
             (Built (Some (oneNodeDef ''w'' ''2.0.0'' []))) None)
       = Returned (Some (CannotUpdateHasDependents ''w'' [''x'']))"
  by code_simp

text \<open>
  C3, as stated, fails.  In the semantic order 1.10.0 dominates 1.9.0, but
  \<open>isNewerVersion\<close> says it is not newer; registering 1.10.0 after 1.9.0 is refused
  as not newer; and after 1.10.0, registering 1.9.0 moves \<open>latest\<close> to 1.9.0, which
  is backward in the semantic order.
\<close>

theorem lexicographic_is_not_semantic:
  "spec_semver_dominates ''1.10.0'' ''1.9.0''
   \<and> \<not> isNewerVersion ''1.10.0'' ''1.9.0''
   \<and> fst (RegisterWorkflow
             (snd (RegisterWorkflow NewWorkflowManager 100 ''w'' ''1.9.0''
                     (Built (Some (oneNodeDef ''w'' ''1.9.0'' []))) None))
             101 ''w'' ''1.10.0'' (Built (Some (oneNodeDef ''w'' ''1.10.0'' []))) None)
       = Returned (Some (NotNewer ''1.10.0'' ''1.9.0''))
   \<and> map_option WorkflowVersion.Version
        (map_of (latest (registerAll NewVersionManager [versionOf ''w'' ''1.10.0''])) ''w'')
       = Some ''1.10.0''
   \<and> map_option WorkflowVersion.Version
        (map_of (latest (registerAll NewVersionManager
                           [versionOf ''w'' ''1.10.0'', versionOf ''w'' ''1.9.0''])) ''w'')
       = Some ''1.9.0''"
  by code_simp

lemma updateDependencies_Version [simp]:
  "WorkflowVersion.Version (updateDependencies vm v) = WorkflowVersion.Version v"
  by (simp add: updateDependencies_def)

lemma RegisterVersion_latest:
  assumes "map_of (latest vm) i = Some l"
  shows "\<exists>l'. map_of (latest (snd (RegisterVersion v vm))) i = Some l'
              \<and> WorkflowVersion.Version l \<le> WorkflowVersion.Version l'"
proof (cases "WorkflowVersion.WorkflowID v = [] \<or> WorkflowVersion.Version v = []")
  case True
  with assms show ?thesis by (auto simp: RegisterVersion_def)
next
  case False
  show ?thesis
  proof (cases "i = WorkflowVersion.WorkflowID v")
    case True
    with False assms show ?thesis
      by (auto simp: RegisterVersion_def Let_def isNewerVersion_def update_conv')
  next
    case False
    with assms show ?thesis
      by (auto simp: RegisterVersion_def Let_def update_conv' split: option.splits)
  qed
qed

lemma registerAll_latest:
  "map_of (latest vm) i = Some l \<Longrightarrow>
     \<exists>l'. map_of (latest (registerAll vm vs)) i = Some l'
          \<and> WorkflowVersion.Version l \<le> WorkflowVersion.Version l'"
proof (induction vs arbitrary: vm l)
  case Nil
  then show ?case by (simp add: registerAll_def)
next
  case (Cons v vs)
  from RegisterVersion_latest [OF Cons.prems, of v]
  obtain l1 where l1: "map_of (latest (snd (RegisterVersion v vm))) i = Some l1"
    and le1: "WorkflowVersion.Version l \<le> WorkflowVersion.Version l1" by blast
  from Cons.IH [OF l1] obtain l' where
    "map_of (latest (registerAll (snd (RegisterVersion v vm)) vs)) i = Some l'"
    "WorkflowVersion.Version l1 \<le> WorkflowVersion.Version l'" by blast
  with le1 show ?case by (auto simp: registerAll_def)
qed

text \<open>
  C3, amended.  The registry compares version strings byte by byte, in
  lexicographic order.  In that order \<open>latest\<close> never moves backward: once a workflow
  id has a latest version, after any sequence of \<open>RegisterVersion\<close> calls it still
  has one, and its version string is not below the earlier one.
\<close>

theorem latest_never_moves_back_lexicographically:
  "(isNewerVersion v1 v2 \<longleftrightarrow> v2 < v1)
   \<and> (map_of (latest vm) workflowID = Some l \<longrightarrow>
        (\<exists>l'. map_of (latest (registerAll vm vs)) workflowID = Some l'
              \<and> WorkflowVersion.Version l \<le> WorkflowVersion.Version l'))"
  using registerAll_latest [of vm workflowID l vs] by (simp add: isNewerVersion_def)

theorem latest_never_moves_back_lexicographically_witness:
  "map_of (latest (registerAll NewVersionManager [versionOf ''w'' ''1.9.0''])) ''w''
     = Some (versionOf ''w'' ''1.9.0'')
   \<and> (\<exists>l'. map_of (latest (registerAll (registerAll NewVersionManager [versionOf ''w'' ''1.9.0''])
                                [versionOf ''w'' ''1.10.0'', versionOf ''w'' ''2.0.0''])) ''w'' = Some l'
            \<and> ''1.9.0'' \<le> WorkflowVersion.Version l')
   \<and> map_of (latest (registerAll (registerAll NewVersionManager [versionOf ''w'' ''1.9.0''])
                        [versionOf ''w'' ''1.10.0'', versionOf ''w'' ''2.0.0''])) ''w''
       = Some (versionOf ''w'' ''2.0.0'')
   \<and> (isNewerVersion ''1.10.0'' ''1.9.0'' \<longleftrightarrow> ''1.9.0'' < ''1.10.0'')"
  using latest_never_moves_back_lexicographically
          [of "''1.10.0''" "''1.9.0''" "registerAll NewVersionManager [versionOf ''w'' ''1.9.0'']" "''w''"
              "versionOf ''w'' ''1.9.0''"
              "[versionOf ''w'' ''1.10.0'', versionOf ''w'' ''2.0.0'']"]
  by (simp add: registerAll_def RegisterVersion_def NewVersionManager_def versionOf_def
        updateDependencies_def findDependents_def Let_def isNewerVersion_def)


section \<open>Cancelling child executions\<close>

text \<open>\<open>CancelChildren\<close> makes no call through the coordinator's \<open>orchestrator\<close> field.\<close>

lemma CancelChildren_calls_nothing:
  "orchestratorCalls (snd (CancelChildren swc parentExecutionID)) = orchestratorCalls swc"
  by (simp add: CancelChildren_def Let_def)

text \<open>
  C6.  A parent execution has one child, whose record is RUNNING after its
  goroutine called \<open>ExecuteWorkflow\<close>.  \<open>CancelChildren\<close> for that parent returns nil
  and sets the child's record to CANCELLED, and the calls made through the
  orchestrator are the same as before: the one \<open>ExecuteWorkflow\<close> call that started
  the child.  No stop request is issued for the child, before or after the flip.
\<close>

theorem CancelChildren_only_flips_the_record:
  "GetSubWorkflowStatus oneRunningChild ''exec-1-1-sub-7'' = Some ''RUNNING''
   \<and> map_of (parentToChildren oneRunningChild) ''exec-1-1'' = Some [''exec-1-1-sub-7'']
   \<and> fst (CancelChildren oneRunningChild ''exec-1-1'') = None
   \<and> GetSubWorkflowStatus (snd (CancelChildren oneRunningChild ''exec-1-1'')) ''exec-1-1-sub-7''
       = Some ''CANCELLED''
   \<and> orchestratorCalls (snd (CancelChildren oneRunningChild ''exec-1-1''))
       = orchestratorCalls oneRunningChild
   \<and> orchestratorCalls oneRunningChild
       = [ExecuteWorkflowCall ''child-wf''
            [(''_parent_workflow_id'', VString ''parent-wf''),
             (''_parent_execution_id'', VString ''exec-1-1'')]]"
  by code_simp


section \<open>Execution ids\<close>

lemma of_char_digitChar: "d < 10 \<Longrightarrow> of_char (digitChar d) = (48 + d :: nat)"
  by (simp add: digitChar_def)

lemma digitsValue_snoc: "digitsValue (s @ [c]) = 10 * digitsValue s + (of_char c - 48)"
  by (simp add: digitsValue_def)

lemma digitsValue_decimal: "digitsValue (decimal n) = n"
proof (induction n rule: decimal.induct)
  case (1 n)
  show ?case
  proof (cases "n < 10")
    case True
    then show ?thesis by (subst decimal.simps) (simp add: digitsValue_def of_char_digitChar)
  next
    case False
    with 1 have "digitsValue (decimal (n div 10)) = n div 10" by simp
    with False show ?thesis
      by (subst decimal.simps) (simp add: digitsValue_snoc of_char_digitChar)
  qed
qed

lemma decimal_inj: "decimal n = decimal m \<Longrightarrow> n = m"
  by (metis digitsValue_decimal)

lemma digitChar_not_dash: "d < 10 \<Longrightarrow> digitChar d \<noteq> CHR ''-''"
proof
  assume "d < 10" "digitChar d = CHR ''-''"
  then have "(of_char (digitChar d) :: nat) = of_char CHR ''-''" by simp
  with \<open>d < 10\<close> show False by (simp add: of_char_digitChar)
qed

lemma decimal_no_dash: "CHR ''-'' \<notin> set (decimal n)"
proof (induction n rule: decimal.induct)
  case (1 n)
  show ?case
  proof (cases "n < 10")
    case True
    then show ?thesis using digitChar_not_dash [of n] by (subst decimal.simps) auto
  next
    case False
    with 1 have "CHR ''-'' \<notin> set (decimal (n div 10))" by simp
    moreover have "digitChar (n mod 10) \<noteq> CHR ''-''" by (rule digitChar_not_dash) simp
    ultimately show ?thesis using False by (subst decimal.simps) auto
  qed
qed

lemma suffix_after_last_dash:
  assumes "CHR ''-'' \<notin> set d"
  shows "rev (takeWhile (\<lambda>c. c \<noteq> CHR ''-'') (rev (x @ CHR ''-'' # d))) = d"
proof -
  have "rev (x @ CHR ''-'' # d) = rev d @ CHR ''-'' # rev x" by simp
  moreover have "takeWhile (\<lambda>c. c \<noteq> CHR ''-'') (rev d @ CHR ''-'' # rev x) = rev d"
    using assms by (subst takeWhile_append2) auto
  ultimately show ?thesis by simp
qed

lemma suffix_unique:
  assumes "CHR ''-'' \<notin> set d1" "CHR ''-'' \<notin> set d2" "x @ CHR ''-'' # d1 = y @ CHR ''-'' # d2"
  shows "d1 = d2"
  using suffix_after_last_dash [OF assms(1), of x] suffix_after_last_dash [OF assms(2), of y] assms(3)
  by simp

lemma formatInt_small: "unat w < 2 ^ 63 \<Longrightarrow> formatInt w = decimal (unat w)"
  by (simp add: formatInt_def sint_of_small_unat)

lemma unat_counter_plus:
  fixes c :: go_int
  assumes "unat c + k < 2 ^ 63"
  shows "unat (c + of_nat k) = unat c + k"
proof -
  have big: "(2::nat) ^ 63 < 2 ^ 64" by simp
  from assms have "k < 2 ^ 63" by simp
  from this big have "k < 2 ^ 64" by (rule less_trans)
  then have uk: "unat (of_nat k :: go_int) = k" by (simp add: unat_of_nat)
  from assms big have "unat c + k < 2 ^ 64" by (rule less_trans)
  with uk have "unat c + unat (of_nat k :: go_int) < 2 ^ LENGTH(64)" by simp
  then have "unat (c + of_nat k) = unat c + unat (of_nat k :: go_int)"
    by (simp only: unat_add_lem [THEN iffD1])
  with uk show ?thesis by simp
qed

lemma mintIDs_length [simp]: "length (mintIDs orch clock) = length clock"
  by (induction clock arbitrary: orch) simp_all

lemma mintIDs_nth:
  "i < length clock \<Longrightarrow>
     mintIDs orch clock ! i
       = ''exec-'' @ formatInt (clock ! i) @ ''-'' @ formatInt (executionCounter orch + of_nat (Suc i))"
proof (induction clock arbitrary: orch i)
  case Nil
  then show ?case by simp
next
  case (Cons now rest)
  show ?case
  proof (cases i)
    case 0
    then show ?thesis by (simp add: nextExecutionID_def)
  next
    case (Suc j)
    with Cons.prems have "j < length rest" by simp
    from Cons.IH [OF this, of "snd (nextExecutionID orch now)"] Suc
    show ?thesis by (simp add: nextExecutionID_def add.assoc)
  qed
qed

text \<open>
  C8.  On one dispatcher whose counter, plus the number of calls, stays below
  \<open>2^63\<close> (the 64-bit counter has not wrapped), the ids returned by any sequence of
  \<open>nextExecutionID\<close> calls are pairwise distinct, whatever the clock readings, and
  the call number \<open>i\<close> (from 0) returns \<open>exec-<clock reading>-<counter + i + 1>\<close>: the
  counter grows by one with each call.
\<close>

theorem execution_ids_distinct:
  assumes "unat (executionCounter orch) + length clock < 2 ^ 63"
  shows "distinct (mintIDs orch clock)
         \<and> (\<forall>i<length clock.
               mintIDs orch clock ! i
                 = ''exec-'' @ formatInt (clock ! i) @ ''-''
                     @ decimal (unat (executionCounter orch) + Suc i))"
proof -
  have nth: "mintIDs orch clock ! i
               = (''exec-'' @ formatInt (clock ! i)) @ CHR ''-''
                   # decimal (unat (executionCounter orch) + Suc i)"
    if "i < length clock" for i
  proof -
    from that assms have b: "unat (executionCounter orch) + Suc i < 2 ^ 63" by simp
    then have "unat (executionCounter orch + of_nat (Suc i)) = unat (executionCounter orch) + Suc i"
      by (rule unat_counter_plus)
    with b have "formatInt (executionCounter orch + of_nat (Suc i))
                   = decimal (unat (executionCounter orch) + Suc i)"
      by (simp only: formatInt_small)
    with mintIDs_nth [OF that, of orch] show ?thesis by simp
  qed
  have "mintIDs orch clock ! i \<noteq> mintIDs orch clock ! j"
    if "i < length clock" "j < length clock" "i \<noteq> j" for i j
  proof
    assume "mintIDs orch clock ! i = mintIDs orch clock ! j"
    with nth [OF that(1)] nth [OF that(2)]
    have "decimal (unat (executionCounter orch) + Suc i) = decimal (unat (executionCounter orch) + Suc j)"
      using suffix_unique [OF decimal_no_dash decimal_no_dash] by metis
    then have "i = j" by (auto dest: decimal_inj)
    with that(3) show False by simp
  qed
  then have "distinct (mintIDs orch clock)" by (simp add: distinct_conv_nth)
  with nth show ?thesis by simp
qed

theorem execution_ids_distinct_witness:
  "unat (executionCounter roundRobinOrchestrator) + length [5, 5, 1042 :: go_int] < 2 ^ 63
   \<and> distinct (mintIDs roundRobinOrchestrator [5, 5, 1042])
   \<and> mintIDs roundRobinOrchestrator [5, 5, 1042]
       = [''exec-5-1'', ''exec-5-2'', ''exec-1042-3'']"
proof -
  have h: "unat (executionCounter roundRobinOrchestrator)
             + length [5, 5, 1042 :: go_int] < 2 ^ 63"
    by (simp add: roundRobinOrchestrator_def)
  have v: "mintIDs roundRobinOrchestrator [5, 5, 1042]
             = [''exec-5-1'', ''exec-5-2'', ''exec-1042-3'']"
    by code_simp
  from execution_ids_distinct [OF h] h v show ?thesis by simp
qed



section \<open>The dispatcher and its balancer\<close>

lemma LB_SelectEngine_kind:
  "isConsistentHash (snd (LB_SelectEngine owner lb key)) = isConsistentHash lb"
  by (cases lb) (simp_all split: prod.splits)

lemma nextExecutionID_balancer:
  "loadBalancer (snd (nextExecutionID orch now)) = loadBalancer orch"
  by (simp add: nextExecutionID_def)

lemma dispatchSteps_kind:
  "isConsistentHash (loadBalancer (snd (dispatchSteps owner orch env workflowID)))
     = isConsistentHash (loadBalancer orch)"
proof -
  have sel: "isConsistentHash (snd (LB_SelectEngine owner (loadBalancer orch) workflowID))
               = isConsistentHash (loadBalancer orch)"
    by (rule LB_SelectEngine_kind)
  show ?thesis
    using sel
    by (auto simp: dispatchSteps_def nextExecutionID_def
             split: sum.splits prod.splits outcome.splits option.splits)
qed

lemma early_results_carry_no_response:
  "fst (dispatchSteps owner orch env workflowID) = Inl (Returns r err) \<Longrightarrow> r = None \<and> err \<noteq> None"
  by (auto simp: dispatchSteps_def
           split: if_splits sum.splits prod.splits outcome.splits option.splits)

lemma LB_AddEngine_kind [simp]: "isConsistentHash (LB_AddEngine e c lb) = isConsistentHash lb"
  by (cases lb) simp_all

lemma LB_RemoveEngine_kind [simp]: "isConsistentHash (LB_RemoveEngine e lb) = isConsistentHash lb"
  by (cases lb) simp_all

lemma LB_UpdateEngineCapacity_kind [simp]:
  "isConsistentHash (LB_UpdateEngineCapacity e c lb) = isConsistentHash lb"
  by (cases lb) simp_all

lemma reconcile_kind:
  "isConsistentHash (loadBalancer (reconcile found orch)) = isConsistentHash (loadBalancer orch)"
  by (induction found arbitrary: orch) (simp_all split: option.splits)

lemma removeMissing_kind:
  "isConsistentHash (loadBalancer (removeMissing present ids orch)) = isConsistentHash (loadBalancer orch)"
  by (induction ids arbitrary: orch) simp_all

text \<open>
  No operation of the dispatcher replaces the balancer by one of the other kind:
  not the discovery callback, not a registration, not a call of \<open>ExecuteWorkflow\<close>.
\<close>

lemma balancer_kind_is_kept:
  "isConsistentHash (loadBalancer (onChange orch found)) = isConsistentHash (loadBalancer orch)"
  "isConsistentHash (loadBalancer (snd (OrchestratorV2_RegisterWorkflow orch now w v b m)))
     = isConsistentHash (loadBalancer orch)"
  "isConsistentHash (loadBalancer (snd (OrchestratorV2_ExecuteWorkflow owner orch env w inputs)))
     = isConsistentHash (loadBalancer orch)"
proof -
  show "isConsistentHash (loadBalancer (onChange orch found)) = isConsistentHash (loadBalancer orch)"
    by (simp add: onChange_def Let_def removeMissing_kind reconcile_kind)
  show "isConsistentHash (loadBalancer (snd (OrchestratorV2_RegisterWorkflow orch now w v b m)))
          = isConsistentHash (loadBalancer orch)"
    by (simp add: OrchestratorV2_RegisterWorkflow_def split: prod.splits)
  obtain d orch' where d: "dispatchSteps owner orch env w = (d, orch')"
    by (cases "dispatchSteps owner orch env w")
  with dispatchSteps_kind [of owner orch env w]
  have "isConsistentHash (loadBalancer orch') = isConsistentHash (loadBalancer orch)" by simp
  with d show "isConsistentHash (loadBalancer (snd (OrchestratorV2_ExecuteWorkflow owner orch env w inputs)))
          = isConsistentHash (loadBalancer orch)"
    by (auto simp: OrchestratorV2_ExecuteWorkflow_def Let_def
             split: sum.splits prod.splits LoadBalancer.splits)
qed

text \<open>
  C9, as stated, fails in its last part: a call can complete without panic on a
  dispatcher whose balancer is not the consistent-hash one.  The dispatcher that
  the constructor makes from a round-robin configuration returns the error
  "workflow not found" for a workflow that is not registered.
\<close>

theorem round_robin_call_completes_without_panic:
  "NewOrchestratorV2 roundRobinConfig None = Inr roundRobinOrchestrator
   \<and> \<not> isConsistentHash (loadBalancer roundRobinOrchestrator)
   \<and> fst (OrchestratorV2_ExecuteWorkflow firstHost roundRobinOrchestrator calmEnv ''missing'' [])
       = Returns None (Some (WorkflowUnknown ''missing''))"
  by (simp add: NewOrchestratorV2_def Validate_def roundRobinConfig_def roundRobinOrchestrator_def
        OrchestratorV2_ExecuteWorkflow_def dispatchSteps_def HasWorkflow_def NewWorkflowManager_def)

text \<open>
  C9, amended.  Whenever the balancer is not the consistent-hash implementation
  (as it is for every dispatcher constructed with the type round-robin, and the
  dispatcher never replaces its balancer), a call of \<open>ExecuteWorkflow\<close> that reaches
  the active-count bookkeeping step panics.  A call stopped by an earlier check
  returns that check's error, under either balancer.  \<open>ExecuteWorkflow\<close> returns a
  response only when the balancer is the consistent-hash implementation and the
  bookkeeping step was reached.
\<close>

theorem round_robin_panics_at_bookkeeping:
  "(\<not> isConsistentHash (loadBalancer orch)
       \<and> fst (dispatchSteps owner orch env workflowID) = Inr reached
     \<longrightarrow> (\<exists>msg. fst (OrchestratorV2_ExecuteWorkflow owner orch env workflowID inputs) = Panics msg))
   \<and> (fst (dispatchSteps owner orch env workflowID) = Inl early
     \<longrightarrow> fst (OrchestratorV2_ExecuteWorkflow owner orch env workflowID inputs) = early)
   \<and> (fst (OrchestratorV2_ExecuteWorkflow owner orch env workflowID inputs) = Returns (Some resp) err
     \<longrightarrow> isConsistentHash (loadBalancer orch)
         \<and> (\<exists>reached. fst (dispatchSteps owner orch env workflowID) = Inr reached))
   \<and> (NewOrchestratorV2 cfg discoveryError = Inr made \<and> LoadBalancerType cfg = ''round-robin''
     \<longrightarrow> \<not> isConsistentHash (loadBalancer made))"
proof -
  obtain d orch' where d: "dispatchSteps owner orch env workflowID = (d, orch')"
    by (cases "dispatchSteps owner orch env workflowID")
  have kind: "isConsistentHash (loadBalancer orch') = isConsistentHash (loadBalancer orch)"
    using dispatchSteps_kind [of owner orch env workflowID] d by simp
  have p1: "\<exists>msg. fst (OrchestratorV2_ExecuteWorkflow owner orch env workflowID inputs) = Panics msg"
    if "\<not> isConsistentHash (loadBalancer orch)" "d = Inr r" for r
  proof -
    from that kind obtain rr where "loadBalancer orch' = RoundRobin rr"
      by (cases "loadBalancer orch'") simp_all
    with d that show ?thesis
      by (simp add: OrchestratorV2_ExecuteWorkflow_def split: prod.splits)
  qed
  have p2: "fst (OrchestratorV2_ExecuteWorkflow owner orch env workflowID inputs) = e"
    if "d = Inl e" for e
    using that d by (simp add: OrchestratorV2_ExecuteWorkflow_def)
  have p3: "isConsistentHash (loadBalancer orch) \<and> (\<exists>reached. d = Inr reached)"
    if r: "fst (OrchestratorV2_ExecuteWorkflow owner orch env workflowID inputs) = Returns (Some resp) err"
  proof (cases d)
    case (Inl e)
    from p2 [OF Inl] r have "e = Returns (Some resp) err" by simp
    with Inl d early_results_carry_no_response [of owner orch env workflowID "Some resp" err]
    show ?thesis by simp
  next
    case (Inr r)
    have "isConsistentHash (loadBalancer orch)"
    proof (rule ccontr)
      assume "\<not> isConsistentHash (loadBalancer orch)"
      from p1 [OF this Inr] r show False by auto
    qed
    with Inr show ?thesis by (cases r) simp
  qed
  have p4: "\<not> isConsistentHash (loadBalancer made)"
    if "NewOrchestratorV2 cfg discoveryError = Inr made" "LoadBalancerType cfg = ''round-robin''"
    using that by (auto simp: NewOrchestratorV2_def split: option.splits if_splits)
  from p1 p2 p3 p4 d show ?thesis by simp
qed

theorem round_robin_panics_at_bookkeeping_witness:
  "\<not> isConsistentHash (loadBalancer readyRoundRobin)
   \<and> fst (dispatchSteps firstHost readyRoundRobin calmEnv ''w'') = Inr (''e1'', ''exec-5-1'', ''1.0.0'')
   \<and> (\<exists>msg. fst (OrchestratorV2_ExecuteWorkflow firstHost readyRoundRobin calmEnv ''w'' []) = Panics msg)
   \<and> fst (dispatchSteps firstHost readyRoundRobin calmEnv ''missing'')
       = Inl (Returns None (Some (WorkflowUnknown ''missing'')))
   \<and> fst (OrchestratorV2_ExecuteWorkflow firstHost readyRoundRobin calmEnv ''missing'' [])
       = Returns None (Some (WorkflowUnknown ''missing''))
   \<and> fst (OrchestratorV2_ExecuteWorkflow firstHost readyConsistentHash calmEnv ''w'' [])
       = Returns (Some \<lparr>WorkflowResponse.WorkflowID = ''w'', Success = True, Outputs = [], Duration = 4,
                        Metadata = [(''engine_id'', VString ''e1''), (''execution_id'', VString ''exec-5-1''),
                                    (''version'', VString ''1.0.0'')]\<rparr>) None
   \<and> isConsistentHash (loadBalancer readyConsistentHash)
   \<and> NewOrchestratorV2 roundRobinConfig None = Inr roundRobinOrchestrator
   \<and> LoadBalancerType roundRobinConfig = ''round-robin''
   \<and> \<not> isConsistentHash (loadBalancer roundRobinOrchestrator)"
proof -
  have k: "\<not> isConsistentHash (loadBalancer readyRoundRobin)" by code_simp
  have d: "fst (dispatchSteps firstHost readyRoundRobin calmEnv ''w'')
             = Inr (''e1'', ''exec-5-1'', ''1.0.0'')" by code_simp
  have m: "fst (dispatchSteps firstHost readyRoundRobin calmEnv ''missing'')
             = Inl (Returns None (Some (WorkflowUnknown ''missing'')))" by code_simp
  have r: "fst (OrchestratorV2_ExecuteWorkflow firstHost readyConsistentHash calmEnv ''w'' [])
             = Returns (Some \<lparr>WorkflowResponse.WorkflowID = ''w'', Success = True, Outputs = [], Duration = 4,
                        Metadata = [(''engine_id'', VString ''e1''), (''execution_id'', VString ''exec-5-1''),
                                    (''version'', VString ''1.0.0'')]\<rparr>) None" by code_simp
  have n: "NewOrchestratorV2 roundRobinConfig None = Inr roundRobinOrchestrator"
    by (simp add: NewOrchestratorV2_def Validate_def roundRobinConfig_def roundRobinOrchestrator_def)
  have t: "LoadBalancerType roundRobinConfig = ''round-robin''" by (simp add: roundRobinConfig_def)
  from round_robin_panics_at_bookkeeping
         [of readyRoundRobin firstHost calmEnv "''w''" "(''e1'', ''exec-5-1'', ''1.0.0'')" "[]"
             "Returns None (Some (WorkflowUnknown ''missing''))" _ _ roundRobinConfig None roundRobinOrchestrator]
       round_robin_panics_at_bookkeeping
         [of readyRoundRobin firstHost calmEnv "''missing''" _ "[]"
             "Returns None (Some (WorkflowUnknown ''missing''))"]
       round_robin_panics_at_bookkeeping
         [of readyConsistentHash firstHost calmEnv "''w''" _ "[]" _
             "\<lparr>WorkflowResponse.WorkflowID = ''w'', Success = True, Outputs = [], Duration = 4,
                        Metadata = [(''engine_id'', VString ''e1''), (''execution_id'', VString ''exec-5-1''),
                                    (''version'', VString ''1.0.0'')]\<rparr>" None]
       k d m r n t
  show ?thesis by simp
qed

end
